theory Spec2Isabelle
  imports Main "HOL-Library.Word" "HOL-Library.Char_ord" "HOL-Library.List_Lexorder"
    "HOL-Library.Multiset"
begin

section \<open>Values shared by the extractor and the API client\<close>

text \<open>
  Python \<open>str\<close> values are modelled as \<open>string\<close>, each \<open>char\<close> standing for one code
  point below 256. Python \<open>int\<close> is \<open>int\<close>. The dictionaries that end up in a JSON request
  body, and the JSON that comes back, are values of \<open>json\<close>; an object keeps its keys in
  insertion order, as a Python \<open>dict\<close> does. Numbers are integers (ids, positions).
\<close>

datatype json =
    JNull
  | JBool bool
  | JNum int
  | JStr string
  | JArr "json list"
  | JObj "(string \<times> json) list"

text \<open>
  A response of the HTTP transport: status code, reason phrase, the URL it answers, and the
  body as parsed JSON (\<open>None\<close> when the body is not JSON, so that \<open>r.json()\<close> raises).
\<close>

record response =
  status_code :: nat
  reason :: string
  url :: string
  content :: "json option"

text \<open>Every exception the modelled code can raise is a value.\<close>

datatype error =
    ValueError
  | OverflowError
  | TypeError
  | KeyError
  | IndexError
  | AttributeError
  | JSONDecodeError
  | HTTPError response

section \<open>Archive Model Extractor\<close>

subsection \<open>String helpers of the Python library\<close>

definition lower_char :: "char \<Rightarrow> char" where
  "lower_char c =
     (let n = (of_char c :: nat) in
      if (65 \<le> n \<and> n \<le> 90) \<or> (192 \<le> n \<and> n \<le> 222 \<and> n \<noteq> 215)
      then char_of (n + 32) else c)"

definition lower :: "string \<Rightarrow> string" where
  "lower s = map lower_char s"

definition isspace :: "char \<Rightarrow> bool" where
  "isspace c =
     (let n = (of_char c :: nat) in
      (9 \<le> n \<and> n \<le> 13) \<or> (28 \<le> n \<and> n \<le> 32) \<or> n = 133 \<or> n = 160)"

definition strip :: "string \<Rightarrow> string" where
  "strip s = rev (dropWhile isspace (rev (dropWhile isspace s)))"

definition endswith :: "string \<Rightarrow> string \<Rightarrow> bool" where
  "endswith s suf = (length suf \<le> length s \<and> drop (length s - length suf) s = suf)"

fun split :: "char \<Rightarrow> string \<Rightarrow> string list" where
  "split sep [] = [[]]"
| "split sep (c # cs) =
     (if c = sep then [] # split sep cs
      else (case split sep cs of [] \<Rightarrow> [[c]] | p # ps \<Rightarrow> (c # p) # ps))"

text \<open>\<open>os.path.basename\<close> of \<open>posixpath\<close>: what follows the last slash.\<close>

definition basename :: "string \<Rightarrow> string" where
  "basename p = rev (takeWhile (\<lambda>c. c \<noteq> CHR ''/'') (rev p))"

definition digit_char :: "nat \<Rightarrow> char" where
  "digit_char d = char_of (48 + d)"

fun str_nat :: "nat \<Rightarrow> string" where
  "str_nat n = (if n < 10 then [digit_char n] else str_nat (n div 10) @ [digit_char (n mod 10)])"

declare str_nat.simps [simp del]

subsection \<open>Base64\<close>

type_synonym byte = "8 word"

definition b64_alphabet :: string where
  "b64_alphabet = ''ABCDEFGHIJKLMNOPQRSTUVWXYZabcdefghijklmnopqrstuvwxyz0123456789+/''"

definition b64_char :: "nat \<Rightarrow> char" where
  "b64_char n = b64_alphabet ! (n mod 64)"

text \<open>\<open>base64.b64encode(raw).decode("utf-8")\<close>: the output is ASCII, so decoding keeps it.\<close>

fun b64encode :: "byte list \<Rightarrow> string" where
  "b64encode [] = []"
| "b64encode [a] =
     (let n = unat a * 65536 in
      [b64_char (n div 262144), b64_char (n div 4096), CHR ''='', CHR ''=''])"
| "b64encode [a, b] =
     (let n = unat a * 65536 + unat b * 256 in
      [b64_char (n div 262144), b64_char (n div 4096), b64_char (n div 64), CHR ''=''])"
| "b64encode (a # b # c # rest) =
     (let n = unat a * 65536 + unat b * 256 + unat c in
      [b64_char (n div 262144), b64_char (n div 4096), b64_char (n div 64), b64_char n]
        @ b64encode rest)"

subsection \<open>Archive entries\<close>

text \<open>
  An entry of the opened archive: the \<open>ZipInfo\<close> fields the code reads, and the bytes
  \<open>zf.read(info)\<close> returns for it. \<open>zf.infolist()\<close> is the list of entries in archive order.
\<close>

type_synonym dt_tuple = "int \<times> int \<times> int \<times> int \<times> int \<times> int"

record zipinfo =
  filename :: string
  date_time :: dt_tuple
  raw :: "byte list"

definition is_dir :: "zipinfo \<Rightarrow> bool" where
  "is_dir info = endswith (filename info) ''/''"

subsection \<open>human_ts\<close>

definition is_leap :: "int \<Rightarrow> bool" where
  "is_leap y = (y mod 4 = 0 \<and> (y mod 100 \<noteq> 0 \<or> y mod 400 = 0))"

definition days_in_month :: "int \<Rightarrow> int \<Rightarrow> int" where
  "days_in_month y m =
     (if m = 2 then (if is_leap y then 29 else 28)
      else if m = 4 \<or> m = 6 \<or> m = 9 \<or> m = 11 then 30 else 31)"

text \<open>The constructor \<open>datetime(Y, M, D, h, m, s)\<close> raises \<open>ValueError\<close> on a field out of range.\<close>

definition datetime :: "dt_tuple \<Rightarrow> error + dt_tuple" where
  "datetime t =
     (case t of (y, mo, d, h, mi, s) \<Rightarrow>
        if 1 \<le> y \<and> y \<le> 9999 \<and> 1 \<le> mo \<and> mo \<le> 12 \<and> 1 \<le> d \<and> d \<le> days_in_month y mo
           \<and> 0 \<le> h \<and> h \<le> 23 \<and> 0 \<le> mi \<and> mi \<le> 59 \<and> 0 \<le> s \<and> s \<le> 59
        then Inr t else Inl ValueError)"

text \<open>
  \<open>time.mktime\<close> depends on the local time zone of the machine, so it is a parameter
  \<open>mktime\<close>: from the fields of a valid date-time to whole seconds since the epoch (the
  float it returns has no fraction), or an exception. \<open>human_ts_body\<close> is the body of the
  \<open>try\<close>; \<open>human_ts\<close> catches every exception of it and returns \<open>0.0\<close>.
\<close>

type_synonym mktime = "dt_tuple \<Rightarrow> error + int"

definition human_ts_body :: "mktime \<Rightarrow> dt_tuple \<Rightarrow> error + int" where
  "human_ts_body mktime t = (case datetime t of Inl e \<Rightarrow> Inl e | Inr d \<Rightarrow> mktime d)"

definition human_ts :: "mktime \<Rightarrow> dt_tuple \<Rightarrow> int" where
  "human_ts mktime t = (case human_ts_body mktime t of Inl e \<Rightarrow> 0 | Inr v \<Rightarrow> v)"

subsection \<open>is_image\<close>

definition image_exts :: "string list" where
  "image_exts = [''.jpg'', ''.jpeg'', ''.png'', ''.gif'', ''.webp'', ''.bmp'']"

definition is_image :: "string \<Rightarrow> bool" where
  "is_image fn = (let fname = lower fn in list_ex (endswith fname) image_exts)"

subsection \<open>parse_zip_models\<close>

text \<open>
  \<open>sorted(xs, key=k)\<close>: the keys are computed first, in order, and an exception of the key
  function leaves \<open>sorted\<close>; then the list is sorted by key, stably.
\<close>

fun decorate :: "('a \<Rightarrow> error + 'k) \<Rightarrow> 'a list \<Rightarrow> error + ('k \<times> 'a) list" where
  "decorate key [] = Inr []"
| "decorate key (x # xs) =
     (case key x of
        Inl e \<Rightarrow> Inl e
      | Inr k \<Rightarrow> (case decorate key xs of Inl e \<Rightarrow> Inl e | Inr ks \<Rightarrow> Inr ((k, x) # ks)))"

definition sorted_py :: "('a \<Rightarrow> error + 'k::linorder) \<Rightarrow> 'a list \<Rightarrow> error + 'a list" where
  "sorted_py key xs =
     (case decorate key xs of Inl e \<Rightarrow> Inl e | Inr ks \<Rightarrow> Inr (map snd (sort_key fst ks)))"

text \<open>\<open>folders.setdefault(folder, []).append(info)\<close> on an insertion-ordered dictionary.\<close>

fun setdefault_append :: "string \<Rightarrow> 'a \<Rightarrow> (string \<times> 'a list) list \<Rightarrow> (string \<times> 'a list) list" where
  "setdefault_append k v [] = [(k, [v])]"
| "setdefault_append k v ((k', vs) # rest) =
     (if k = k' then (k', vs @ [v]) # rest else (k', vs) # setdefault_append k v rest)"

definition collect_entry :: "(string \<times> zipinfo list) list \<Rightarrow> zipinfo \<Rightarrow> (string \<times> zipinfo list) list" where
  "collect_entry folders info =
     (if is_dir info then folders
      else if \<not> is_image (filename info) then folders
      else (let parts = split CHR ''/'' (filename info) in
            if length parts < 2 then folders
            else setdefault_append (strip (parts ! 0)) info folders))"

definition collect_folders :: "zipinfo list \<Rightarrow> (string \<times> zipinfo list) list" where
  "collect_folders zf = foldl collect_entry [] zf"

definition warn_timestamps :: string where
  "warn_timestamps = ''Timestamp non disponibili: ordinamento alfabetico usato.''"

definition warn_count :: "string \<Rightarrow> nat \<Rightarrow> string" where
  "warn_count folder n =
     ''La cartella '' @ [CHR 0x27] @ folder @ [CHR 0x27] @ '' contiene '' @ str_nat n
       @ '' immagini (attese: 2). Verranno usate le prime 2.''"

definition image_payload :: "int \<times> zipinfo \<Rightarrow> json" where
  "image_payload pi =
     (case pi of (pos, info) \<Rightarrow>
        JObj [(''attachment'', JStr (b64encode (raw info))),
              (''filename'', JStr (basename (filename info))),
              (''position'', JNum pos)])"

record model_group =
  model :: string
  images :: "json list"
  warnings :: "string list"

text \<open>The first stage of the loop body: the \<open>try\<close> around \<open>sorted\<close> and its \<open>except\<close> branch.\<close>

definition sort_infos :: "mktime \<Rightarrow> zipinfo list \<Rightarrow> zipinfo list \<times> string list" where
  "sort_infos mktime infos =
     (case sorted_py (\<lambda>i. Inr (human_ts mktime (date_time i))) infos of
        Inr infos_sorted \<Rightarrow> (infos_sorted, [])
      | Inl e \<Rightarrow> (sort_key filename infos, [warn_timestamps]))"

text \<open>The second stage: the two-image constraint.\<close>

definition limit_images :: "string \<Rightarrow> zipinfo list \<times> string list \<Rightarrow> zipinfo list \<times> string list" where
  "limit_images folder sw =
     (case sw of (infos_sorted, ws) \<Rightarrow>
        (let img_infos = filter (\<lambda>i. is_image (filename i)) infos_sorted in
         if length img_infos \<noteq> 2
         then (take 2 img_infos, ws @ [warn_count folder (length img_infos)])
         else (img_infos, ws)))"

definition process_folder :: "mktime \<Rightarrow> string \<times> zipinfo list \<Rightarrow> model_group" where
  "process_folder mktime fi =
     (case fi of (folder, infos) \<Rightarrow>
        (case limit_images folder (sort_infos mktime infos) of (img_infos, ws) \<Rightarrow>
           \<lparr>model = folder,
            images = map image_payload (zip [1 .. int (length img_infos)] img_infos),
            warnings = ws\<rparr>))"

definition parse_zip_models :: "mktime \<Rightarrow> zipinfo list \<Rightarrow> model_group list" where
  "parse_zip_models mktime zf = map (process_folder mktime) (collect_folders zf)"

text \<open>A stand-in for \<open>time.mktime\<close> used in the worked examples: seconds into the day, plus one.\<close>

definition sample_mktime :: mktime where
  "sample_mktime t = (case t of (y, mo, d, h, mi, s) \<Rightarrow> Inr (h * 3600 + mi * 60 + s + 1))"

section \<open>Commerce API Client\<close>

subsection \<open>Python values\<close>

text \<open>Truth value of a Python object, as \<open>if x:\<close> and \<open>x or y\<close> take it.\<close>

fun truthy :: "json \<Rightarrow> bool" where
  "truthy JNull = False"
| "truthy (JBool b) = b"
| "truthy (JNum n) = (n \<noteq> 0)"
| "truthy (JStr s) = (s \<noteq> [])"
| "truthy (JArr xs) = (xs \<noteq> [])"
| "truthy (JObj kvs) = (kvs \<noteq> [])"

text \<open>\<open>d.get(key, default)\<close>: only a dictionary has \<open>get\<close>.\<close>

fun dict_get :: "json \<Rightarrow> string \<Rightarrow> json \<Rightarrow> error + json" where
  "dict_get (JObj kvs) key dflt = Inr (case map_of kvs key of None \<Rightarrow> dflt | Some v \<Rightarrow> v)"
| "dict_get _ key dflt = Inl AttributeError"

text \<open>\<open>x[key]\<close> with a string key.\<close>

fun subscript :: "json \<Rightarrow> string \<Rightarrow> error + json" where
  "subscript (JObj kvs) key = (case map_of kvs key of None \<Rightarrow> Inl KeyError | Some v \<Rightarrow> Inr v)"
| "subscript _ key = Inl TypeError"

text \<open>\<open>x[0]\<close>.\<close>

fun subscript0 :: "json \<Rightarrow> error + json" where
  "subscript0 (JArr []) = Inl IndexError"
| "subscript0 (JArr (x # xs)) = Inr x"
| "subscript0 (JStr []) = Inl IndexError"
| "subscript0 (JStr (c # cs)) = Inr (JStr [c])"
| "subscript0 (JObj kvs) = Inl KeyError"
| "subscript0 _ = Inl TypeError"

text \<open>What a \<open>for\<close> loop iterates over.\<close>

fun py_iter :: "json \<Rightarrow> error + json list" where
  "py_iter (JArr xs) = Inr xs"
| "py_iter (JObj kvs) = Inr (map (\<lambda>kv. JStr (fst kv)) kvs)"
| "py_iter (JStr s) = Inr (map (\<lambda>c. JStr [c]) s)"
| "py_iter _ = Inl TypeError"

text \<open>Running a fallible step over a list, stopping at the first exception.\<close>

fun each :: "('a \<Rightarrow> error + 'b) \<Rightarrow> 'a list \<Rightarrow> error + 'b list" where
  "each f [] = Inr []"
| "each f (x # xs) =
     (case f x of
        Inl e \<Rightarrow> Inl e
      | Inr y \<Rightarrow> (case each f xs of Inl e \<Rightarrow> Inl e | Inr ys \<Rightarrow> Inr (y # ys)))"

subsection \<open>Scrubbing the template's variants and options\<close>

text \<open>
  \<open>{k: v[k] for k in v.keys() if k not in drop_keys}\<close> keeps, in order, the entries of the
  dictionary whose key is not dropped; anything but a dictionary has no \<open>keys\<close>.
\<close>

fun without_keys :: "string list \<Rightarrow> json \<Rightarrow> error + json" where
  "without_keys drop_keys (JObj kvs) = Inr (JObj (filter (\<lambda>kv. fst kv \<notin> set drop_keys) kvs))"
| "without_keys drop_keys _ = Inl AttributeError"

definition scrub_variants :: "json \<Rightarrow> error + json list" where
  "scrub_variants variants =
     (let drop_keys = [''id'', ''product_id'', ''admin_graphql_api_id'', ''position'',
                       ''created_at'', ''updated_at'', ''image_id''] in
      case py_iter (if truthy variants then variants else JArr []) of
        Inl e \<Rightarrow> Inl e
      | Inr vs \<Rightarrow> each (without_keys drop_keys) vs)"

definition scrub_options :: "json \<Rightarrow> error + json list" where
  "scrub_options options =
     (let drop_keys = [''id'', ''product_id'', ''admin_graphql_api_id'', ''position''] in
      case py_iter (if truthy options then options else JArr []) of
        Inl e \<Rightarrow> Inl e
      | Inr os \<Rightarrow> each (without_keys drop_keys) os)"

subsection \<open>The HTTP session\<close>

text \<open>
  The platform is a deterministic server: its answer to a request is a function of the requests
  it has received so far. The state threaded through the client is that list of requests, so a
  run also yields its trace. The transport always delivers a response (no connection errors); a
  status from 400 to 599 makes \<open>raise_for_status\<close> raise.
\<close>

datatype http_method = GET | POST

record request =
  http_method :: http_method
  req_url :: string
  params :: "(string \<times> json) list"
  payload :: "json option"

type_synonym server = "request list \<Rightarrow> request \<Rightarrow> response"

type_synonym 'a io = "request list \<Rightarrow> (error + 'a) \<times> request list"

definition ret :: "'a \<Rightarrow> 'a io" where
  "ret x tr = (Inr x, tr)"

definition raise :: "error \<Rightarrow> 'a io" where
  "raise e tr = (Inl e, tr)"

definition lift :: "error + 'a \<Rightarrow> 'a io" where
  "lift r tr = (r, tr)"

definition bind :: "'a io \<Rightarrow> ('a \<Rightarrow> 'b io) \<Rightarrow> 'b io" where
  "bind m f tr = (case m tr of (Inl e, tr') \<Rightarrow> (Inl e, tr') | (Inr x, tr') \<Rightarrow> f x tr')"

definition bind_sum :: "error + 'a \<Rightarrow> ('a \<Rightarrow> error + 'b) \<Rightarrow> error + 'b" where
  "bind_sum r f = (case r of Inl e \<Rightarrow> Inl e | Inr x \<Rightarrow> f x)"

record client =
  base :: string
  session :: server

text \<open>\<open>ShopifyClient.__init__\<close>; the headers do not take part in what follows.\<close>

definition ShopifyClient :: "server \<Rightarrow> string \<Rightarrow> string \<Rightarrow> client" where
  "ShopifyClient srv shop_domain api_version =
     \<lparr>base = ''https://'' @ shop_domain @ ''/admin/api/'' @ api_version, session = srv\<rparr>"

definition session_get :: "client \<Rightarrow> string \<Rightarrow> (string \<times> json) list \<Rightarrow> response io" where
  "session_get self u ps tr =
     (let rq = \<lparr>http_method = GET, req_url = u, params = ps, payload = None\<rparr>
      in (Inr (session self tr rq), tr @ [rq]))"

definition session_post :: "client \<Rightarrow> string \<Rightarrow> json \<Rightarrow> response io" where
  "session_post self u js tr =
     (let rq = \<lparr>http_method = POST, req_url = u, params = [], payload = Some js\<rparr>
      in (Inr (session self tr rq), tr @ [rq]))"

definition raise_for_status :: "response \<Rightarrow> error + unit" where
  "raise_for_status r =
     (if 400 \<le> status_code r \<and> status_code r < 600 then Inl (HTTPError r) else Inr ())"

definition r_json :: "response \<Rightarrow> error + json" where
  "r_json r = (case content r of None \<Rightarrow> Inl JSONDecodeError | Some j \<Rightarrow> Inr j)"

subsection \<open>Collections\<close>

text \<open>\<open>data[0]["id"] if data else None\<close>\<close>

definition first_id :: "json \<Rightarrow> error + json" where
  "first_id data =
     (if truthy data then bind_sum (subscript0 data) (\<lambda>x. subscript x ''id'') else Inr JNull)"

definition find_custom_collection :: "client \<Rightarrow> string \<Rightarrow> json io" where
  "find_custom_collection self title =
     bind (session_get self (base self @ ''/custom_collections.json'')
             [(''title'', JStr title), (''limit'', JNum 1)]) (\<lambda>r.
     bind (lift (raise_for_status r)) (\<lambda>_.
     bind (lift (r_json r)) (\<lambda>j.
     bind (lift (dict_get j ''custom_collections'' (JArr []))) (\<lambda>data.
     lift (first_id data)))))"

definition find_smart_collection :: "client \<Rightarrow> string \<Rightarrow> json io" where
  "find_smart_collection self title =
     bind (session_get self (base self @ ''/smart_collections.json'')
             [(''title'', JStr title), (''limit'', JNum 1)]) (\<lambda>r.
     bind (lift (raise_for_status r)) (\<lambda>_.
     bind (lift (r_json r)) (\<lambda>j.
     bind (lift (dict_get j ''smart_collections'' (JArr []))) (\<lambda>data.
     lift (first_id data)))))"

text \<open>
  \<open>ensure_collection\<close>, from \<open>cid = self._find_smart_collection(title)\<close> on: the part that both
  the home-page path and the ordinary path run.
\<close>

definition ensure_by_title :: "client \<Rightarrow> string \<Rightarrow> json io" where
  "ensure_by_title self title =
     bind (find_smart_collection self title) (\<lambda>cid.
     if truthy cid then ret cid
     else
       bind (find_custom_collection self title) (\<lambda>cid.
       if truthy cid then ret cid
       else
         bind (session_post self (base self @ ''/custom_collections.json'')
                 (JObj [(''custom_collection'', JObj [(''title'', JStr title)])])) (\<lambda>r.
         bind (lift (raise_for_status r)) (\<lambda>_.
         bind (lift (r_json r)) (\<lambda>j.
         lift (bind_sum (subscript j ''custom_collection'') (\<lambda>c. subscript c ''id'')))))))"

definition ensure_collection :: "client \<Rightarrow> string \<Rightarrow> json io" where
  "ensure_collection self title =
     (if lower (strip title) \<in> set [''homepage'', ''home page'', ''frontpage'', ''home'']
      then
        bind (session_get self (base self @ ''/custom_collections.json'')
                [(''handle'', JStr ''frontpage''), (''limit'', JNum 1)]) (\<lambda>r.
        bind (lift (raise_for_status r)) (\<lambda>_.
        bind (lift (r_json r)) (\<lambda>j.
        bind (lift (dict_get j ''custom_collections'' (JArr []))) (\<lambda>data.
        if truthy data then lift (bind_sum (subscript0 data) (\<lambda>x. subscript x ''id''))
        else ensure_by_title self title))))
      else ensure_by_title self title)"

definition add_product_to_collection :: "client \<Rightarrow> json \<Rightarrow> json \<Rightarrow> json io" where
  "add_product_to_collection self product_id collection_id =
     bind (session_post self (base self @ ''/collects.json'')
             (JObj [(''collect'', JObj [(''product_id'', product_id),
                                        (''collection_id'', collection_id)])])) (\<lambda>r.
     bind (lift (raise_for_status r)) (\<lambda>_.
     bind (lift (r_json r)) (\<lambda>j.
     lift (dict_get j ''collect'' JNull))))"

subsection \<open>Vocabulary for statements about the collection lookups\<close>

text \<open>
  The requests \<open>ensure_collection\<close> is expected to send, and what it means for a response to
  list collections (\<open>items\<close> is what the response lists under \<open>key\<close>; a missing key lists
  nothing), for a JSON object to carry an id, and for a response to report a created collection.
\<close>

definition get_frontpage :: "client \<Rightarrow> request" where
  "get_frontpage self =
     \<lparr>http_method = GET, req_url = base self @ ''/custom_collections.json'',
      params = [(''handle'', JStr ''frontpage''), (''limit'', JNum 1)], payload = None\<rparr>"

definition get_smart :: "client \<Rightarrow> string \<Rightarrow> request" where
  "get_smart self title =
     \<lparr>http_method = GET, req_url = base self @ ''/smart_collections.json'',
      params = [(''title'', JStr title), (''limit'', JNum 1)], payload = None\<rparr>"

definition get_custom :: "client \<Rightarrow> string \<Rightarrow> request" where
  "get_custom self title =
     \<lparr>http_method = GET, req_url = base self @ ''/custom_collections.json'',
      params = [(''title'', JStr title), (''limit'', JNum 1)], payload = None\<rparr>"

definition post_custom :: "client \<Rightarrow> string \<Rightarrow> request" where
  "post_custom self title =
     \<lparr>http_method = POST, req_url = base self @ ''/custom_collections.json'', params = [],
      payload = Some (JObj [(''custom_collection'', JObj [(''title'', JStr title)])])\<rparr>"

definition ok_status :: "response \<Rightarrow> bool" where
  "ok_status r = (\<not> (400 \<le> status_code r \<and> status_code r < 600))"

definition listing :: "response \<Rightarrow> string \<Rightarrow> json list \<Rightarrow> bool" where
  "listing r key items =
     (ok_status r \<and>
      (case content r of
         Some (JObj kvs) \<Rightarrow>
           (case map_of kvs key of
              None \<Rightarrow> items = []
            | Some (JArr xs) \<Rightarrow> items = xs
            | Some _ \<Rightarrow> False)
       | _ \<Rightarrow> False))"

definition has_id :: "json \<Rightarrow> json \<Rightarrow> bool" where
  "has_id x cid = (case x of JObj kvs \<Rightarrow> map_of kvs ''id'' = Some cid | _ \<Rightarrow> False)"

definition reports_created :: "response \<Rightarrow> json \<Rightarrow> bool" where
  "reports_created r cid =
     (ok_status r \<and>
      (case content r of
         Some (JObj kvs) \<Rightarrow>
           (case map_of kvs ''custom_collection'' of Some c \<Rightarrow> has_id c cid | None \<Rightarrow> False)
       | _ \<Rightarrow> False))"

definition is_home_title :: "string \<Rightarrow> bool" where
  "is_home_title title =
     (lower (strip title) \<in> set [''homepage'', ''home page'', ''frontpage'', ''home''])"

subsection \<open>A shop for the worked examples\<close>

text \<open>
  A server used only in worked examples: it has the storefront-default collection (id 1), the
  smart collection \<open>Decorative\<close> (id 22) and the custom collection \<open>Pellicole per Vetri\<close>
  (id 33); it answers every creation of a custom collection with id 44.
\<close>

definition ok_json :: "json \<Rightarrow> response" where
  "ok_json j = \<lparr>status_code = 200, reason = ''OK'', url = [], content = Some j\<rparr>"

definition title_param :: "request \<Rightarrow> json" where
  "title_param rq = (case map_of (params rq) ''title'' of None \<Rightarrow> JNull | Some t \<Rightarrow> t)"

definition sample_shop :: server where
  "sample_shop tr rq =
     (if http_method rq = POST
      then ok_json (JObj [(''custom_collection'', JObj [(''id'', JNum 44)])])
      else if map_of (params rq) ''handle'' = Some (JStr ''frontpage'')
      then ok_json (JObj [(''custom_collections'',
             JArr [JObj [(''id'', JNum 1), (''handle'', JStr ''frontpage'')]])])
      else if endswith (req_url rq) ''/smart_collections.json''
      then ok_json (JObj [(''smart_collections'',
             JArr (if title_param rq = JStr ''Decorative''
                   then [JObj [(''id'', JNum 22), (''title'', JStr ''Decorative'')]] else []))])
      else ok_json (JObj [(''custom_collections'',
             JArr (if title_param rq = JStr ''Pellicole per Vetri''
                   then [JObj [(''id'', JNum 33), (''title'', JStr ''Pellicole per Vetri'')]]
                   else []))]))"

definition sample_client :: client where
  "sample_client = ShopifyClient sample_shop ''s'' ''v''"

subsection \<open>Products\<close>

text \<open>
  \<open>str.isdigit\<close> holds of a non-empty string of digit characters; below code point 256 these
  are \<open>0\<close> to \<open>9\<close> and the superscripts one, two and three, which \<open>int\<close> rejects.
\<close>

definition isdigit_char :: "char \<Rightarrow> bool" where
  "isdigit_char c =
     (let n = (of_char c :: nat) in (48 \<le> n \<and> n \<le> 57) \<or> n = 178 \<or> n = 179 \<or> n = 185)"

definition isdigit :: "string \<Rightarrow> bool" where
  "isdigit s = (s \<noteq> [] \<and> list_all isdigit_char s)"

text \<open>\<open>int(s)\<close> on a string of digit characters.\<close>

definition int_str :: "string \<Rightarrow> error + nat" where
  "int_str s =
     (if s \<noteq> [] \<and> list_all (\<lambda>c. 48 \<le> (of_char c :: nat) \<and> (of_char c :: nat) \<le> 57) s
      then Inr (foldl (\<lambda>n c. 10 * n + ((of_char c :: nat) - 48)) 0 s)
      else Inl ValueError)"

definition get_product_by_id :: "client \<Rightarrow> nat \<Rightarrow> json io" where
  "get_product_by_id self pid =
     bind (session_get self (base self @ ''/products/'' @ str_nat pid @ ''.json'') []) (\<lambda>r.
     if status_code r = 404 then ret JNull
     else
       bind (lift (raise_for_status r)) (\<lambda>_.
       bind (lift (r_json r)) (\<lambda>j.
       lift (dict_get j ''product'' JNull))))"

definition get_product_by_handle :: "client \<Rightarrow> string \<Rightarrow> json io" where
  "get_product_by_handle self handle =
     bind (session_get self (base self @ ''/products.json'')
             [(''handle'', JStr handle), (''limit'', JNum 1)]) (\<lambda>r.
     bind (lift (raise_for_status r)) (\<lambda>_.
     bind (lift (r_json r)) (\<lambda>j.
     bind (lift (dict_get j ''products'' (JArr []))) (\<lambda>arr.
     if truthy arr then lift (subscript0 arr) else ret JNull))))"

definition get_product_by_id_or_handle :: "client \<Rightarrow> string \<Rightarrow> json io" where
  "get_product_by_id_or_handle self ident0 =
     (let ident = strip ident0 in
      if isdigit ident then bind (lift (int_str ident)) (get_product_by_id self)
      else get_product_by_handle self ident)"

definition list_product_collections :: "client \<Rightarrow> json \<Rightarrow> json list io" where
  "list_product_collections self product_id =
     bind (session_get self (base self @ ''/collects.json'')
             [(''product_id'', product_id), (''limit'', JNum 250)]) (\<lambda>r.
     bind (lift (raise_for_status r)) (\<lambda>_.
     bind (lift (r_json r)) (\<lambda>j.
     bind (lift (dict_get j ''collects'' (JArr []))) (\<lambda>collects.
     bind (lift (py_iter collects)) (\<lambda>cs.
     lift (each (\<lambda>c. dict_get c ''collection_id'' JNull) cs))))))"

text \<open>\<open>d[k] = v\<close> and \<open>d.update(other)\<close> on a dictionary kept in insertion order.\<close>

fun dict_set :: "(string \<times> json) list \<Rightarrow> string \<Rightarrow> json \<Rightarrow> (string \<times> json) list" where
  "dict_set [] k v = [(k, v)]"
| "dict_set (p # ps) k v = (if fst p = k then (k, v) # ps else p # dict_set ps k v)"

definition dict_update ::
  "(string \<times> json) list \<Rightarrow> (string \<times> json) list \<Rightarrow> (string \<times> json) list" where
  "dict_update d other = foldl (\<lambda>d kv. dict_set d (fst kv) (snd kv)) d other"

text \<open>
  The class body defines \<open>create_product\<close> twice. This is the first definition (line 211), which
  takes a template; the statements after its \<open>return\<close> are never run.
\<close>

definition create_product_l211 :: "client \<Rightarrow> json \<Rightarrow> json \<Rightarrow> json \<Rightarrow> json \<Rightarrow> json io" where
  "create_product_l211 self title body_html images_payload template =
     (let product_body =
            [(''title'', title), (''body_html'', body_html), (''images'', images_payload)]
      in
      bind (if truthy template
            then lift
              (bind_sum (dict_get template ''vendor'' JNull) (\<lambda>vendor.
               bind_sum (dict_get template ''product_type'' JNull) (\<lambda>product_type.
               bind_sum (dict_get template ''tags'' JNull) (\<lambda>tags.
               bind_sum (bind_sum (dict_get template ''options'' JNull) scrub_options) (\<lambda>opts.
               bind_sum (bind_sum (dict_get template ''variants'' JNull) scrub_variants) (\<lambda>vars.
               Inr (dict_update product_body
                      [(''vendor'', vendor), (''product_type'', product_type), (''tags'', tags),
                       (''options'', JArr opts), (''variants'', JArr vars)])))))))
            else ret product_body) (\<lambda>product_body.
      bind (session_post self (base self @ ''/products.json'')
              (JObj [(''product'', JObj product_body)])) (\<lambda>r.
      bind (lift (raise_for_status r)) (\<lambda>_.
      bind (lift (r_json r)) (\<lambda>j.
      lift (subscript j ''product''))))))"

text \<open>The second definition (line 281), without a template.\<close>

definition create_product_l281 :: "client \<Rightarrow> json \<Rightarrow> json \<Rightarrow> json \<Rightarrow> json io" where
  "create_product_l281 self title body_html images_payload =
     (let product =
            JObj [(''product'', JObj [(''title'', title), (''body_html'', body_html),
                                      (''images'', images_payload)])]
      in
      bind (session_post self (base self @ ''/products.json'') product) (\<lambda>r.
      bind (lift (raise_for_status r)) (\<lambda>_.
      bind (lift (r_json r)) (\<lambda>j.
      lift (subscript j ''product'')))))"

subsection \<open>Which definition a call reaches\<close>

text \<open>
  A \<open>def\<close> makes a function with its parameter names (after \<open>self\<close>), the defaults of the
  optional ones, and its body. A call binds positional arguments to the parameters in order and
  keyword arguments by name; it raises \<open>TypeError\<close> when there are too many positional
  arguments, when a keyword names no parameter or one already bound, or when a parameter without
  a default is left unbound.
\<close>

datatype callable =
  Def (parameters: "string list") (defaults: "(string \<times> json) list")
      (body: "client \<Rightarrow> (string \<Rightarrow> json) \<Rightarrow> json io")

definition bind_arguments ::
  "string list \<Rightarrow> (string \<times> json) list \<Rightarrow> json list \<Rightarrow> (string \<times> json) list
     \<Rightarrow> error + (string \<Rightarrow> json)" where
  "bind_arguments ps dflts args kwargs =
     (let positional = zip ps args;
          bound = positional @ kwargs @ dflts
      in
      if length ps < length args then Inl TypeError
      else if list_ex (\<lambda>k. k \<notin> set ps) (map fst kwargs) then Inl TypeError
      else if list_ex (\<lambda>k. k \<in> set (map fst positional)) (map fst kwargs) then Inl TypeError
      else if list_ex (\<lambda>p. map_of bound p = None) ps then Inl TypeError
      else Inr (\<lambda>k. case map_of bound k of Some v \<Rightarrow> v | None \<Rightarrow> JNull))"

definition call ::
  "callable \<Rightarrow> client \<Rightarrow> json list \<Rightarrow> (string \<times> json) list \<Rightarrow> json io" where
  "call m self args kwargs =
     (case bind_arguments (parameters m) (defaults m) args kwargs of
        Inl e \<Rightarrow> raise e
      | Inr env \<Rightarrow> body m self env)"

text \<open>
  The \<open>def create_product\<close> statements of \<open>class ShopifyClient\<close>, in the order of the class body.
  A class body runs top to bottom and every \<open>def\<close> rebinds its name, so the attribute is the
  last definition of that name.
\<close>

definition def_create_product_l211 :: callable where
  "def_create_product_l211 =
     Def [''title'', ''body_html'', ''images_payload'', ''template''] [(''template'', JNull)]
       (\<lambda>self env. create_product_l211 self (env ''title'') (env ''body_html'')
                     (env ''images_payload'') (env ''template''))"

definition def_create_product_l281 :: callable where
  "def_create_product_l281 =
     Def [''title'', ''body_html'', ''images_payload''] []
       (\<lambda>self env. create_product_l281 self (env ''title'') (env ''body_html'')
                     (env ''images_payload''))"

definition ShopifyClient_body :: "(string \<times> callable) list" where
  "ShopifyClient_body =
     [(''create_product'', def_create_product_l211),
      (''create_product'', def_create_product_l281)]"

definition class_attr :: "(string \<times> callable) list \<Rightarrow> string \<Rightarrow> callable option" where
  "class_attr defs name = map_of (rev defs) name"

text \<open>\<open>client.create_product(*args, **kwargs)\<close>\<close>

definition create_product :: "client \<Rightarrow> json list \<Rightarrow> (string \<times> json) list \<Rightarrow> json io" where
  "create_product self args kwargs =
     (case class_attr ShopifyClient_body ''create_product'' of
        None \<Rightarrow> raise AttributeError
      | Some m \<Rightarrow> call m self args kwargs)"

section \<open>Batch orchestrator\<close>

text \<open>
  The module-level code that runs once the start button is pressed (line 355 on), as a function
  of the settings of the side bar, the extracted models and the platform. \<open>st.stop()\<close> ends the
  script after an error message; an exception nothing catches ends it too.
\<close>

definition DESCRIPTION_HTML :: string where
  "DESCRIPTION_HTML =
     ''Il desiderio di privacy '' @ [CHR 0xE8] @
       '' del tutto normale... Sia in azienda che nel comfort della propria '' @
       ''casa, permette di ritrovarsi ed essere se stessi.'' @ [CHR 0x0A] @
       [CHR 0x0A] @
       ''Con la nostra gamma di pellicole design, si aprono nuove possibilit'' @
       [CHR 0xE0] @
       '' di privacy per coloro&nbsp;che ne hanno bisogno, che si tratti di '' @
       ''una sala riunioni o una stanza da bagno.'' @ [CHR 0x0A] @ [CHR 0x0A] @
       ''Le nostre pellicole offrono diversi livelli di opacit'' @ [CHR 0xE0] @
       '' e differenti motivi, per corrispondere meglio alle esigenze di '' @
       ''privacy, senza diminuire di luminosit'' @ [CHR 0xE0] @ ''.'' @ [CHR 0x0A] @
       [CHR 0x0A] @ ''Ispirandosi alla citt'' @ [CHR 0xE0] @
       '', alla natura, alle forme geometriche o al cielo, sono disponibili '' @
       ''decine di modelli colorati od opachi per rivestimento, che si possono '' @
       ''adattare ai vetri di imprese e negozi: pellicole opalescenti, '' @
       ''sfumate, bianche, grigie o nere, occultanti o colorate. La pellicola '' @
       ''Aurora con tecnologia dicroica offre un gioco di luci impercettibile.'' @
       [CHR 0x0A] @ [CHR 0x0A] @ ''Originalit'' @ [CHR 0xE0] @ '' garantita!''"

definition DEFAULT_COLLECTIONS :: "string list" where
  "DEFAULT_COLLECTIONS = [''Homepage'', ''Pellicole per Vetri'', ''Decorative'']"

text \<open>The dash of the error records, U+2014, which is above code point 255: its UTF-8 bytes.\<close>

definition em_dash :: string where
  "em_dash = [CHR 0xE2, CHR 0x80, CHR 0x94]"

fun join :: "string \<Rightarrow> string list \<Rightarrow> string" where
  "join sep [] = []"
| "join sep [x] = x"
| "join sep (x # y # ys) = x @ sep @ join sep (y # ys)"

record settings =
  shop_domain :: string
  access_token :: string
  api_version :: string
  duplication_enabled :: bool
  source_identifier :: string
  copy_source_collections :: bool

datatype 'a flow = Stop string | Go 'a

datatype outcome = Stopped string | Crashed error | Finished "json list"

text \<open>\<open>str(e)\<close> of the exception that \<open>raise_for_status\<close> raises.\<close>

definition http_error_msg :: "response \<Rightarrow> string" where
  "http_error_msg r =
     (if 400 \<le> status_code r \<and> status_code r < 500
      then str_nat (status_code r) @ '' Client Error: '' @ reason r @ '' for url: '' @ url r
      else if 500 \<le> status_code r \<and> status_code r < 600
      then str_nat (status_code r) @ '' Server Error: '' @ reason r @ '' for url: '' @ url r
      else [])"

text \<open>Lines 363 to 375: the source product and the collections it is in.\<close>

definition resolve_template :: "client \<Rightarrow> settings \<Rightarrow> (json \<times> json list) flow io" where
  "resolve_template client ui =
     (if duplication_enabled ui then
        if source_identifier ui = []
        then ret (Stop (''Modalit'' @ [CHR 0xE0]
                        @ '' duplicazione: specifica un ID o handle del prodotto sorgente.''))
        else
          bind (get_product_by_id_or_handle client (source_identifier ui)) (\<lambda>template_product.
          if \<not> truthy template_product then ret (Stop ''Prodotto sorgente non trovato.'')
          else if copy_source_collections ui then
            bind (lift (dict_get template_product ''id'' JNull)) (\<lambda>i.
            if truthy i then
              bind (lift (subscript template_product ''id'')) (\<lambda>pid.
              bind (list_product_collections client pid) (\<lambda>ids.
              ret (Go (template_product, ids))))
            else ret (Go (template_product, [])))
          else ret (Go (template_product, [])))
      else ret (Go (JNull, [])))"

text \<open>Lines 378 to 387: the default collections, unless those of the source are copied.\<close>

fun ensure_all ::
  "client \<Rightarrow> string list \<Rightarrow> (string \<times> json) list \<Rightarrow> (string \<times> json) list flow io" where
  "ensure_all client [] collection_ids tr = (Inr (Go collection_ids), tr)"
| "ensure_all client (title # titles) collection_ids tr =
     (case ensure_collection client title tr of
        (Inr cid, tr') \<Rightarrow> ensure_all client titles (dict_set collection_ids title cid) tr'
      | (Inl (HTTPError r), tr') \<Rightarrow>
          (Inr (Stop (''Errore collezione '' @ [CHR 0x27] @ title @ [CHR 0x27] @ '': ''
                      @ http_error_msg r)), tr')
      | (Inl e, tr') \<Rightarrow> (Inl e, tr'))"

definition resolve_collections :: "client \<Rightarrow> settings \<Rightarrow> (string \<times> json) list flow io" where
  "resolve_collections client ui =
     (if \<not> (duplication_enabled ui \<and> copy_source_collections ui)
      then ensure_all client DEFAULT_COLLECTIONS []
      else ret (Go []))"

text \<open>Lines 392 to 429: the loop over the models.\<close>

definition product_title :: "string \<Rightarrow> string" where
  "product_title model_name =
     ''SOLAR SCREEN'' @ [CHR 0xAE] @ '' Pellicole Decorative - '' @ model_name"

fun add_all :: "client \<Rightarrow> json \<Rightarrow> json list \<Rightarrow> unit io" where
  "add_all client pid [] = ret ()"
| "add_all client pid (cid # cids) =
     bind (add_product_to_collection client pid cid) (\<lambda>_. add_all client pid cids)"

definition success_record :: "string \<Rightarrow> json \<Rightarrow> json \<Rightarrow> error + json" where
  "success_record model_name pid product =
     bind_sum (dict_get product ''title'' JNull) (\<lambda>t.
     bind_sum (dict_get product ''handle'' JNull) (\<lambda>h.
     bind_sum (dict_get product ''status'' JNull) (\<lambda>s.
     Inr (JObj [(''Modello'', JStr model_name),
                (''Product ID'', pid),
                (''Titolo'', t),
                (''Handle'', h),
                (''Status'', s),
                (''Collezioni'', JStr (join '', '' DEFAULT_COLLECTIONS))]))))"

definition error_detail :: "response \<Rightarrow> json" where
  "error_detail r =
     (case r_json r of Inr j \<Rightarrow> j | Inl e \<Rightarrow> JObj [(''error'', JStr (http_error_msg r))])"

definition error_record :: "string \<Rightarrow> json \<Rightarrow> json" where
  "error_record model_name detail =
     JObj [(''Modello'', JStr model_name),
           (''Product ID'', JStr em_dash),
           (''Titolo'', JStr (product_title model_name)),
           (''Handle'', JStr em_dash),
           (''Status'', JStr ''ERRORE''),
           (''Collezioni'', JStr (join '', '' DEFAULT_COLLECTIONS)),
           (''Errore'', detail)]"

text \<open>
  The body of the \<open>try\<close> for one model, up to the record it appends. \<open>cp\<close> is the function
  that \<open>client.create_product\<close> denotes.
\<close>

type_synonym creator = "client \<Rightarrow> json list \<Rightarrow> (string \<times> json) list \<Rightarrow> json io"

definition process_model ::
  "creator \<Rightarrow> client \<Rightarrow> settings \<Rightarrow> json \<Rightarrow> json list \<Rightarrow> (string \<times> json) list
     \<Rightarrow> model_group \<Rightarrow> json io" where
  "process_model cp client ui template_product source_collection_ids collection_ids m =
     bind (if duplication_enabled ui \<and> truthy template_product
           then lift (dict_get template_product ''body_html'' JNull)
           else ret (JStr DESCRIPTION_HTML)) (\<lambda>body.
     bind (cp client []
             [(''title'', JStr (product_title (model m))),
              (''body_html'', body),
              (''images_payload'', JArr (images m)),
              (''template'', if duplication_enabled ui then template_product else JNull)])
       (\<lambda>product.
     bind (lift (subscript product ''id'')) (\<lambda>pid.
     bind (if duplication_enabled ui \<and> copy_source_collections ui \<and> source_collection_ids \<noteq> []
           then add_all client pid source_collection_ids
           else add_all client pid (map snd collection_ids)) (\<lambda>_.
     lift (success_record (model m) pid product)))))"

fun batch_loop ::
  "creator \<Rightarrow> client \<Rightarrow> settings \<Rightarrow> json \<Rightarrow> json list \<Rightarrow> (string \<times> json) list
     \<Rightarrow> model_group list \<Rightarrow> json list \<Rightarrow> request list
     \<Rightarrow> (error option \<times> json list) \<times> request list" where
  "batch_loop cp client ui template_product source_collection_ids collection_ids [] results tr =
     ((None, results), tr)"
| "batch_loop cp client ui template_product source_collection_ids collection_ids (m # ms)
     results tr =
     (case process_model cp client ui template_product source_collection_ids collection_ids m tr
      of
        (Inr row, tr') \<Rightarrow>
          batch_loop cp client ui template_product source_collection_ids collection_ids ms
            (results @ [row]) tr'
      | (Inl (HTTPError r), tr') \<Rightarrow>
          batch_loop cp client ui template_product source_collection_ids collection_ids ms
            (results @ [error_record (model m) (error_detail r)]) tr'
      | (Inl e, tr') \<Rightarrow> ((Some e, results), tr'))"

definition batch_run ::
  "creator \<Rightarrow> server \<Rightarrow> settings \<Rightarrow> model_group list \<Rightarrow> request list
     \<Rightarrow> outcome \<times> request list" where
  "batch_run cp srv ui models tr =
     (if \<not> (shop_domain ui \<noteq> [] \<and> access_token ui \<noteq> [])
      then (Stopped ''Inserisci dominio e token nelle impostazioni a sinistra.'', tr)
      else
        let client = ShopifyClient srv (shop_domain ui) (api_version ui) in
        case resolve_template client ui tr of
          (Inl e, tr1) \<Rightarrow> (Crashed e, tr1)
        | (Inr (Stop msg), tr1) \<Rightarrow> (Stopped msg, tr1)
        | (Inr (Go (template_product, source_collection_ids)), tr1) \<Rightarrow>
            (case resolve_collections client ui tr1 of
               (Inl e, tr2) \<Rightarrow> (Crashed e, tr2)
             | (Inr (Stop msg), tr2) \<Rightarrow> (Stopped msg, tr2)
             | (Inr (Go collection_ids), tr2) \<Rightarrow>
                 (case batch_loop cp client ui template_product source_collection_ids
                         collection_ids models [] tr2 of
                    ((Some e, results), tr3) \<Rightarrow> (Crashed e, tr3)
                  | ((None, results), tr3) \<Rightarrow> (Finished results, tr3))))"

text \<open>The program: the loop calls the attribute \<open>create_product\<close> of the client.\<close>

definition upload :: "server \<Rightarrow> settings \<Rightarrow> model_group list \<Rightarrow> outcome \<times> request list" where
  "upload srv ui models = batch_run create_product srv ui models []"

subsection \<open>Vocabulary for statements about the batch loop\<close>

text \<open>
  The collections summary of a result record; what the \<open>try\<close> body of each model yields when
  the models are processed one after the other, the trace being threaded through; the record
  the loop appends for such an outcome; and the outcomes the loop survives, a normal return or
  an HTTP error.
\<close>

definition collections_summary :: "json \<Rightarrow> bool" where
  "collections_summary row =
     (dict_get row ''Collezioni'' JNull = Inr (JStr ''Homepage, Pellicole per Vetri, Decorative''))"

fun attempts ::
  "creator \<Rightarrow> client \<Rightarrow> settings \<Rightarrow> json \<Rightarrow> json list \<Rightarrow> (string \<times> json) list
     \<Rightarrow> model_group list \<Rightarrow> request list \<Rightarrow> (error + json) list" where
  "attempts cp client ui template_product source_collection_ids collection_ids [] tr = []"
| "attempts cp client ui template_product source_collection_ids collection_ids (m # ms) tr =
     (case process_model cp client ui template_product source_collection_ids collection_ids m tr
      of (a, tr') \<Rightarrow>
        a # attempts cp client ui template_product source_collection_ids collection_ids ms tr')"

definition row_of :: "model_group \<Rightarrow> error + json \<Rightarrow> json" where
  "row_of m a =
     (case a of
        Inr row \<Rightarrow> row
      | Inl (HTTPError r) \<Rightarrow> error_record (model m) (error_detail r)
      | Inl e \<Rightarrow> JNull)"

definition caught :: "error + json \<Rightarrow> bool" where
  "caught a = (case a of Inr row \<Rightarrow> True | Inl (HTTPError r) \<Rightarrow> True | Inl e \<Rightarrow> False)"

definition is_success_record :: "string \<Rightarrow> json \<Rightarrow> bool" where
  "is_success_record model_name row =
     (case row of
        JObj kvs \<Rightarrow>
          map fst kvs = [''Modello'', ''Product ID'', ''Titolo'', ''Handle'', ''Status'',
                         ''Collezioni'']
          \<and> map_of kvs ''Modello'' = Some (JStr model_name)
      | _ \<Rightarrow> False)"

text \<open>The requests of product creation, attachment and template lookup.\<close>

definition post_product :: "client \<Rightarrow> (string \<times> json) list \<Rightarrow> request" where
  "post_product self product_body =
     \<lparr>http_method = POST, req_url = base self @ ''/products.json'', params = [],
      payload = Some (JObj [(''product'', JObj product_body)])\<rparr>"

definition post_collect :: "client \<Rightarrow> json \<Rightarrow> json \<Rightarrow> request" where
  "post_collect self product_id collection_id =
     \<lparr>http_method = POST, req_url = base self @ ''/collects.json'', params = [],
      payload = Some (JObj [(''collect'', JObj [(''product_id'', product_id),
                                                (''collection_id'', collection_id)])])\<rparr>"

definition get_product :: "client \<Rightarrow> nat \<Rightarrow> request" where
  "get_product self pid =
     \<lparr>http_method = GET, req_url = base self @ ''/products/'' @ str_nat pid @ ''.json'',
      params = [], payload = None\<rparr>"

definition get_collects :: "client \<Rightarrow> json \<Rightarrow> request" where
  "get_collects self product_id =
     \<lparr>http_method = GET, req_url = base self @ ''/collects.json'',
      params = [(''product_id'', product_id), (''limit'', JNum 250)], payload = None\<rparr>"

definition posted_title :: "request \<Rightarrow> json" where
  "posted_title rq =
     (case payload rq of
        None \<Rightarrow> JNull
      | Some j \<Rightarrow>
          (case bind_sum (subscript j ''product'') (\<lambda>p. subscript p ''title'') of
             Inl e \<Rightarrow> JNull
           | Inr t \<Rightarrow> t))"

definition is_product_post :: "client \<Rightarrow> request \<Rightarrow> bool" where
  "is_product_post self rq =
     (http_method rq = POST \<and> req_url rq = base self @ ''/products.json'')"

subsection \<open>A store for the worked examples\<close>

text \<open>
  A server used only in worked examples. It knows the products 7 (in collection 5) and 8 (in no
  collection), rejects the creation of the product of model \<open>BAD\<close> with status 422, answers
  every other creation with a product whose id is 100 plus the number of requests received so
  far, accepts every attachment, and otherwise behaves as the shop above.
\<close>

definition sample_template :: "int \<Rightarrow> json" where
  "sample_template n = JObj [(''id'', JNum n), (''body_html'', JStr ''B''), (''vendor'', JStr ''V'')]"

definition sample_store :: server where
  "sample_store tr rq =
     (if http_method rq = GET \<and> endswith (req_url rq) ''/products/7.json''
      then ok_json (JObj [(''product'', sample_template 7)])
      else if http_method rq = GET \<and> endswith (req_url rq) ''/products/8.json''
      then ok_json (JObj [(''product'', sample_template 8)])
      else if http_method rq = GET \<and> endswith (req_url rq) ''/collects.json''
      then ok_json (JObj [(''collects'',
             JArr (if map_of (params rq) ''product_id'' = Some (JNum 7)
                   then [JObj [(''id'', JNum 70), (''collection_id'', JNum 5)]] else []))])
      else if http_method rq = POST \<and> endswith (req_url rq) ''/products.json''
      then (if posted_title rq = JStr (product_title ''BAD'')
            then \<lparr>status_code = 422, reason = ''Unprocessable Entity'', url = req_url rq,
                  content = Some (JObj [(''errors'', JStr ''rejected'')])\<rparr>
            else ok_json (JObj [(''product'',
                   JObj [(''id'', JNum (100 + int (length tr))), (''title'', posted_title rq),
                         (''handle'', JStr ''h''), (''status'', JStr ''active'')])]))
      else if http_method rq = POST \<and> endswith (req_url rq) ''/collects.json''
      then ok_json (JObj [(''collect'', JObj [(''id'', JNum 1)])])
      else sample_shop tr rq)"

definition store_client :: client where
  "store_client = ShopifyClient sample_store ''s'' ''v''"

definition plain_ui :: settings where
  "plain_ui = \<lparr>shop_domain = ''s'', access_token = ''t'', api_version = ''v'',
               duplication_enabled = False, source_identifier = [],
               copy_source_collections = False\<rparr>"

definition copy_ui :: "string \<Rightarrow> settings" where
  "copy_ui ident = \<lparr>shop_domain = ''s'', access_token = ''t'', api_version = ''v'',
                    duplication_enabled = True, source_identifier = ident,
                    copy_source_collections = True\<rparr>"

definition sample_model :: "string \<Rightarrow> model_group" where
  "sample_model name = \<lparr>model = name, images = [], warnings = []\<rparr>"

definition created :: "nat \<Rightarrow> json \<Rightarrow> json" where
  "created n title =
     JObj [(''id'', JNum (100 + int n)), (''title'', title), (''handle'', JStr ''h''),
           (''status'', JStr ''active'')]"

definition sample_row :: "string \<Rightarrow> nat \<Rightarrow> json" where
  "sample_row name n =
     JObj [(''Modello'', JStr name),
           (''Product ID'', JNum (100 + int n)),
           (''Titolo'', JStr (product_title name)),
           (''Handle'', JStr ''h''),
           (''Status'', JStr ''active''),
           (''Collezioni'', JStr ''Homepage, Pellicole per Vetri, Decorative'')]"

definition rejected :: response where
  "rejected = \<lparr>status_code = 422, reason = ''Unprocessable Entity'',
                url = ''https://s/admin/api/v/products.json'',
                content = Some (JObj [(''errors'', JStr ''rejected'')])\<rparr>"

section \<open>Verification of the extractor\<close>

subsection \<open>Sorting never falls back\<close>

lemma decorate_total: "decorate (\<lambda>x. Inr (f x)) xs = Inr (map (\<lambda>x. (f x, x)) xs)"
  by (induction xs) simp_all

lemma insort_key_decorated:
  "insort_key fst (f x, x) (map (\<lambda>y. (f y, y)) ys) = map (\<lambda>y. (f y, y)) (insort_key f x ys)"
  by (induction ys) simp_all

lemma sort_key_decorated:
  "sort_key fst (map (\<lambda>y. (f y, y)) xs) = map (\<lambda>y. (f y, y)) (sort_key f xs)"
  by (induction xs) (simp_all add: insort_key_decorated)

lemma sorted_py_total: "sorted_py (\<lambda>x. Inr (f x)) xs = Inr (sort_key f xs)"
  by (simp add: sorted_py_def decorate_total sort_key_decorated o_def)

lemma sort_infos_eq:
  "sort_infos mktime infos = (sort_key (\<lambda>i. human_ts mktime (date_time i)) infos, [])"
  by (simp add: sort_infos_def sorted_py_total)

lemma sort_key_zero_first:
  fixes f :: "'a \<Rightarrow> int"
  assumes z: "\<forall>x\<in>set xs. P x \<longrightarrow> f x = 0" and p: "\<forall>x\<in>set xs. \<not> P x \<longrightarrow> 0 < f x"
  shows "sort_key f xs = filter P xs @ sort_key f (filter (\<lambda>x. \<not> P x) xs)"
proof (rule properties_for_sort_key)
  show "mset (filter P xs @ sort_key f (filter (\<lambda>x. \<not> P x) xs)) = mset xs"
    by simp
next
  fix k assume "k \<in> set (filter P xs @ sort_key f (filter (\<lambda>x. \<not> P x) xs))"
  then have kx: "k \<in> set xs" by auto
  have a: "filter (\<lambda>x. f k = f x) (sort_key f (filter (\<lambda>x. \<not> P x) xs))
        = filter (\<lambda>x. f k = f x) (filter (\<lambda>x. \<not> P x) xs)"
    using sort_key_stable [of f "f k" "filter (\<lambda>x. \<not> P x) xs"] by (simp add: eq_commute)
  have "filter (\<lambda>x. f k = f x) (filter P xs) @ filter (\<lambda>x. f k = f x) (filter (\<lambda>x. \<not> P x) xs)
        = filter (\<lambda>x. f k = f x) xs"
  proof (cases "P k")
    case True
    then have fk: "f k = 0" using z kx by simp
    have "filter (\<lambda>x. f k = f x) (filter (\<lambda>x. \<not> P x) xs) = []"
      using p fk by (auto simp: filter_empty_conv)
    moreover have "filter (\<lambda>x. f k = f x) (filter P xs) = filter (\<lambda>x. f k = f x) xs"
      using p fk by (auto intro!: filter_cong)
    ultimately show ?thesis by simp
  next
    case False
    then have fk: "0 < f k" using p kx by simp
    have "filter (\<lambda>x. f k = f x) (filter P xs) = []"
      using z fk by (auto simp: filter_empty_conv)
    moreover have "filter (\<lambda>x. f k = f x) (filter (\<lambda>x. \<not> P x) xs) = filter (\<lambda>x. f k = f x) xs"
      using z fk by (auto intro!: filter_cong)
    ultimately show ?thesis by simp
  qed
  then show "filter (\<lambda>x. f k = f x) (filter P xs @ sort_key f (filter (\<lambda>x. \<not> P x) xs))
        = filter (\<lambda>x. f k = f x) xs"
    using a by simp
next
  have "map f (filter P xs) = replicate (length (filter P xs)) 0"
    using z by (auto simp: map_replicate_const [symmetric] intro!: map_cong)
  then have "sorted (map f (filter P xs))"
    by (simp add: sorted_replicate)
  then show "sorted (map f (filter P xs @ sort_key f (filter (\<lambda>x. \<not> P x) xs)))"
    using z p by (auto simp: sorted_append)
qed

lemma human_ts_failed: "isl (human_ts_body mktime t) \<Longrightarrow> human_ts mktime t = 0"
  by (cases "human_ts_body mktime t") (simp_all add: human_ts_def)

lemma warn_count_neq: "warn_count folder n \<noteq> warn_timestamps"
  by (simp add: warn_count_def warn_timestamps_def)

lemma limit_images_warnings:
  "snd (limit_images folder (xs, [])) =
     (if length (filter (\<lambda>i. is_image (filename i)) xs) \<noteq> 2
      then [warn_count folder (length (filter (\<lambda>i. is_image (filename i)) xs))] else [])"
  by (simp add: limit_images_def Let_def)

lemma limit_images_kept:
  "fst (limit_images folder (xs, ws)) = take 2 (filter (\<lambda>i. is_image (filename i)) xs)"
  by (simp add: limit_images_def Let_def)

lemma process_folder_eq:
  "process_folder mktime (folder, infos) =
     (let kept = take 2 (filter (\<lambda>i. is_image (filename i)) (sort_key (\<lambda>i. human_ts mktime (date_time i)) infos));
          n = length (filter (\<lambda>i. is_image (filename i)) infos) in
      \<lparr>model = folder,
       images = map image_payload (zip [1 .. int (length kept)] kept),
       warnings = (if n \<noteq> 2 then [warn_count folder n] else [])\<rparr>)"
  by (simp add: process_folder_def sort_infos_eq limit_images_def Let_def filter_sort)

subsection \<open>Worked archives\<close>

lemma is_image_jpg_names:
  "is_image ''M/a.jpg''" "is_image ''M/b.jpg''" "is_image ''M/c.jpg''"
  by (simp_all add: is_image_def lower_def lower_char_def image_exts_def endswith_def)

lemma collect_folders_two:
  "collect_folders [\<lparr>filename = ''M/b.jpg'', date_time = d1, raw = r1\<rparr>,
                    \<lparr>filename = ''M/a.jpg'', date_time = d2, raw = r2\<rparr>]
   = [(''M'', [\<lparr>filename = ''M/b.jpg'', date_time = d1, raw = r1\<rparr>,
               \<lparr>filename = ''M/a.jpg'', date_time = d2, raw = r2\<rparr>])]"
  by (simp add: collect_folders_def collect_entry_def is_dir_def endswith_def is_image_jpg_names
      strip_def isspace_def)

lemma collect_folders_three:
  "collect_folders [\<lparr>filename = ''M/c.jpg'', date_time = d1, raw = r1\<rparr>,
                    \<lparr>filename = ''M/b.jpg'', date_time = d2, raw = r2\<rparr>,
                    \<lparr>filename = ''M/a.jpg'', date_time = d3, raw = r3\<rparr>]
   = [(''M'', [\<lparr>filename = ''M/c.jpg'', date_time = d1, raw = r1\<rparr>,
               \<lparr>filename = ''M/b.jpg'', date_time = d2, raw = r2\<rparr>,
               \<lparr>filename = ''M/a.jpg'', date_time = d3, raw = r3\<rparr>])]"
  by (simp add: collect_folders_def collect_entry_def is_dir_def endswith_def is_image_jpg_names
      strip_def isspace_def)

lemma human_ts_zero_date: "human_ts mktime (1980, 0, 0, 0, 0, 0) = 0"
  by (simp add: human_ts_def human_ts_body_def datetime_def)

lemma human_ts_sample:
  "human_ts sample_mktime (2024, 5, 1, 10, 0, 0) = 36001"
  "human_ts sample_mktime (2024, 5, 1, 9, 0, 0) = 32401"
  "human_ts sample_mktime (2024, 5, 1, 8, 0, 0) = 28801"
  by (simp_all add: human_ts_def human_ts_body_def datetime_def sample_mktime_def days_in_month_def)

lemma zip_upto_nth:
  "k < length xs \<Longrightarrow> zip [1 .. int (length xs)] xs ! k = (int k + 1, xs ! k)"
  by (simp add: nth_upto)

subsection \<open>Claims about the extractor\<close>

text \<open>
  C8. \<open>human_ts\<close> returns a number on every input, and \<open>0\<close> whenever building or converting
  the date-time fails. So the \<open>sorted\<close> call of \<open>parse_zip_models\<close> never raises, the \<open>except\<close>
  branch (sort by file name, warning about timestamps) is never taken, and no group carries that
  warning. Entries whose timestamp does not convert keep their enumeration order among themselves,
  and when every convertible entry has a positive time (ZIP dates start in 1980) they come first.
\<close>

theorem human_ts_total_fallback_unreachable:
  "(isl (human_ts_body mktime t) \<longrightarrow> human_ts mktime t = 0)
   \<and> sorted_py (\<lambda>i. Inr (human_ts mktime (date_time i))) infos
       = Inr (sort_key (\<lambda>i. human_ts mktime (date_time i)) infos)
   \<and> sort_infos mktime infos = (sort_key (\<lambda>i. human_ts mktime (date_time i)) infos, [])
   \<and> warn_timestamps \<notin> set (warnings (process_folder mktime (folder, infos)))
   \<and> filter (\<lambda>i. isl (human_ts_body mktime (date_time i))) (fst (sort_infos mktime infos))
       = filter (\<lambda>i. isl (human_ts_body mktime (date_time i))) infos
   \<and> ((\<forall>i\<in>set infos. \<not> isl (human_ts_body mktime (date_time i))
          \<longrightarrow> 0 < human_ts mktime (date_time i))
       \<longrightarrow> fst (sort_infos mktime infos)
           = filter (\<lambda>i. isl (human_ts_body mktime (date_time i))) infos
             @ sort_key (\<lambda>i. human_ts mktime (date_time i))
                 (filter (\<lambda>i. \<not> isl (human_ts_body mktime (date_time i))) infos))"
proof -
  let ?key = "\<lambda>i. human_ts mktime (date_time i)"
  let ?bad = "\<lambda>i. isl (human_ts_body mktime (date_time i))"
  have 1: "isl (human_ts_body mktime t) \<longrightarrow> human_ts mktime t = 0"
    by (simp add: human_ts_failed)
  have 2: "sorted_py (\<lambda>i. Inr (?key i)) infos = Inr (sort_key ?key infos)"
    by (rule sorted_py_total)
  have 3: "sort_infos mktime infos = (sort_key ?key infos, [])"
    by (rule sort_infos_eq)
  have 4: "warn_timestamps \<notin> set (warnings (process_folder mktime (folder, infos)))"
    using warn_count_neq [of folder] by (simp add: process_folder_eq Let_def eq_commute [of warn_timestamps])
  have "filter ?bad (sort_key ?key infos) = filter ?bad (filter (\<lambda>i. ?key i = 0) (sort_key ?key infos))"
    by (auto simp: human_ts_failed intro!: filter_cong)
  also have "\<dots> = filter ?bad (filter (\<lambda>i. ?key i = 0) infos)"
    by (simp only: sort_key_stable)
  also have "\<dots> = filter ?bad infos"
    by (auto simp: human_ts_failed intro!: filter_cong)
  finally have 5: "filter ?bad (fst (sort_infos mktime infos)) = filter ?bad infos"
    by (simp add: 3)
  have 6: "(\<forall>i\<in>set infos. \<not> ?bad i \<longrightarrow> 0 < ?key i)
       \<longrightarrow> fst (sort_infos mktime infos) = filter ?bad infos @ sort_key ?key (filter (\<lambda>i. \<not> ?bad i) infos)"
  proof
    assume pos: "\<forall>i\<in>set infos. \<not> ?bad i \<longrightarrow> 0 < ?key i"
    have "sort_key ?key infos = filter ?bad infos @ sort_key ?key (filter (\<lambda>i. \<not> ?bad i) infos)"
      by (rule sort_key_zero_first) (use pos in \<open>simp_all add: human_ts_failed\<close>)
    then show "fst (sort_infos mktime infos) = filter ?bad infos @ sort_key ?key (filter (\<lambda>i. \<not> ?bad i) infos)"
      by (simp add: 3)
  qed
  from 1 2 3 4 5 6 show ?thesis by blast
qed

theorem human_ts_total_fallback_unreachable_witness:
  "isl (human_ts_body sample_mktime (1980, 0, 0, 0, 0, 0))
   \<and> human_ts sample_mktime (1980, 0, 0, 0, 0, 0) = 0
   \<and> \<not> isl (human_ts_body sample_mktime (2024, 5, 1, 10, 0, 0))
   \<and> 0 < human_ts sample_mktime (2024, 5, 1, 10, 0, 0)
   \<and> fst (sort_infos sample_mktime
            [\<lparr>filename = ''M/a.jpg'', date_time = (2024, 5, 1, 10, 0, 0), raw = []\<rparr>,
             \<lparr>filename = ''M/b.jpg'', date_time = (1980, 0, 0, 0, 0, 0), raw = []\<rparr>])
       = [\<lparr>filename = ''M/b.jpg'', date_time = (1980, 0, 0, 0, 0, 0), raw = []\<rparr>,
          \<lparr>filename = ''M/a.jpg'', date_time = (2024, 5, 1, 10, 0, 0), raw = []\<rparr>]"
  using human_ts_total_fallback_unreachable [of sample_mktime "(1980, 0, 0, 0, 0, 0)"
      "[\<lparr>filename = ''M/a.jpg'', date_time = (2024, 5, 1, 10, 0, 0), raw = []\<rparr>,
        \<lparr>filename = ''M/b.jpg'', date_time = (1980, 0, 0, 0, 0, 0), raw = []\<rparr>]" "''M''"]
  by (simp add: human_ts_def human_ts_body_def datetime_def sample_mktime_def days_in_month_def)

text \<open>
  C3. The claim promises that a group whose timestamps cannot be converted is sorted by file name
  and gets the warning about alphabetical ordering. On an archive whose two entries both carry the
  all-zero DOS date (month 0, day 0), conversion fails for both, yet the group keeps the archive
  order \<open>b.jpg\<close>, \<open>a.jpg\<close> and has no warning.
\<close>

theorem zero_dates_keep_archive_order:
  "isl (human_ts_body mktime (1980, 0, 0, 0, 0, 0))
   \<and> parse_zip_models mktime
       [\<lparr>filename = ''M/b.jpg'', date_time = (1980, 0, 0, 0, 0, 0), raw = [1]\<rparr>,
        \<lparr>filename = ''M/a.jpg'', date_time = (1980, 0, 0, 0, 0, 0), raw = [2]\<rparr>]
     = [\<lparr>model = ''M'',
         images = [JObj [(''attachment'', JStr ''AQ==''), (''filename'', JStr ''b.jpg''),
                         (''position'', JNum 1)],
                   JObj [(''attachment'', JStr ''Ag==''), (''filename'', JStr ''a.jpg''),
                         (''position'', JNum 2)]],
         warnings = []\<rparr>]"
  by (simp add: parse_zip_models_def collect_folders_two process_folder_eq human_ts_zero_date
      is_image_jpg_names image_payload_def basename_def b64_char_def b64_alphabet_def upto.simps
      human_ts_body_def datetime_def)

lemma of_char_digit: "d < 10 \<Longrightarrow> (of_char (digit_char d) :: nat) = 48 + d"
  by (simp add: digit_char_def)

lemma str_nat_digits:
  "list_all (\<lambda>c. 48 \<le> (of_char c :: nat) \<and> (of_char c :: nat) \<le> 57) (str_nat n)
   \<and> foldl (\<lambda>a c. 10 * a + ((of_char c :: nat) - 48)) 0 (str_nat n) = n"
proof (induction n rule: str_nat.induct)
  case (1 n)
  show ?case
  proof (cases "n < 10")
    case True
    then show ?thesis
      by (subst (1 2) str_nat.simps) (simp add: of_char_digit)
  next
    case False
    have d: "(of_char (digit_char (n mod 10)) :: nat) = 48 + n mod 10"
      by (rule of_char_digit) simp
    from False 1 show ?thesis
      by (subst (1 2) str_nat.simps) (simp add: d)
  qed
qed

lemma str_nat_3: "str_nat 3 = ''3''"
  by code_simp

text \<open>
  C6. Every emitted model group has at most two images. With \<open>n\<close> the number of images of the
  folder: when \<open>n\<close> is not 2 the only warning of the group is the sentence
  \<open>La cartella '...' contiene n immagini (attese: 2). Verranno usate le prime 2.\<close>, with the
  name of the folder between the quotes and \<open>n\<close> written in decimal digits, and the images are
  the first two of the sorted entries; with exactly 2 images there is no warning; a folder with
  fewer than two images yields a group with those images, and no error exists on this path.
\<close>

theorem images_at_most_two:
  assumes "g \<in> set (parse_zip_models mktime zf)"
  shows "\<exists>folder infos. (folder, infos) \<in> set (collect_folders zf) \<and> model g = folder \<and>
     (let n = length (filter (\<lambda>i. is_image (filename i)) infos) in
        length (images g) \<le> 2 \<and> length (images g) = min n 2
        \<and> (n \<noteq> 2 \<longrightarrow>
             warnings g = [''La cartella '' @ [CHR 0x27] @ folder @ [CHR 0x27] @ '' contiene ''
                           @ str_nat n @ '' immagini (attese: 2). Verranno usate le prime 2.''])
        \<and> list_all (\<lambda>c. 48 \<le> (of_char c :: nat) \<and> (of_char c :: nat) \<le> 57) (str_nat n)
        \<and> foldl (\<lambda>a c. 10 * a + ((of_char c :: nat) - 48)) 0 (str_nat n) = n
        \<and> (n = 2 \<longrightarrow> warnings g = [])
        \<and> images g = map image_payload (zip [1 .. int (min n 2)]
             (take 2 (filter (\<lambda>i. is_image (filename i))
                (sort_key (\<lambda>i. human_ts mktime (date_time i)) infos)))))"
proof -
  from assms obtain folder infos where m: "(folder, infos) \<in> set (collect_folders zf)"
    and g: "g = process_folder mktime (folder, infos)"
    by (auto simp: parse_zip_models_def)
  have len: "length (filter (\<lambda>i. is_image (filename i)) (sort_key (\<lambda>i. human_ts mktime (date_time i)) infos))
     = length (filter (\<lambda>i. is_image (filename i)) infos)"
    by (simp add: filter_sort)
  show ?thesis
    apply (rule exI [of _ folder], rule exI [of _ infos])
    using m len str_nat_digits [of "length (filter (\<lambda>i. is_image (filename i)) infos)"]
    by (simp add: g process_folder_eq Let_def min_def warn_count_def)
qed

theorem images_at_most_two_witness:
  "process_folder sample_mktime (''M'',
      [\<lparr>filename = ''M/c.jpg'', date_time = (2024, 5, 1, 10, 0, 0), raw = [3]\<rparr>,
       \<lparr>filename = ''M/b.jpg'', date_time = (2024, 5, 1, 9, 0, 0), raw = [2]\<rparr>,
       \<lparr>filename = ''M/a.jpg'', date_time = (2024, 5, 1, 8, 0, 0), raw = [1]\<rparr>])
     \<in> set (parse_zip_models sample_mktime
      [\<lparr>filename = ''M/c.jpg'', date_time = (2024, 5, 1, 10, 0, 0), raw = [3]\<rparr>,
       \<lparr>filename = ''M/b.jpg'', date_time = (2024, 5, 1, 9, 0, 0), raw = [2]\<rparr>,
       \<lparr>filename = ''M/a.jpg'', date_time = (2024, 5, 1, 8, 0, 0), raw = [1]\<rparr>])
   \<and> (\<exists>folder infos. (folder, infos) \<in> set (collect_folders
      [\<lparr>filename = ''M/c.jpg'', date_time = (2024, 5, 1, 10, 0, 0), raw = [3]\<rparr>,
       \<lparr>filename = ''M/b.jpg'', date_time = (2024, 5, 1, 9, 0, 0), raw = [2]\<rparr>,
       \<lparr>filename = ''M/a.jpg'', date_time = (2024, 5, 1, 8, 0, 0), raw = [1]\<rparr>])
       \<and> folder = ''M''
       \<and> length (filter (\<lambda>i. is_image (filename i)) infos) = 3
       \<and> warnings (process_folder sample_mktime (''M'',
      [\<lparr>filename = ''M/c.jpg'', date_time = (2024, 5, 1, 10, 0, 0), raw = [3]\<rparr>,
       \<lparr>filename = ''M/b.jpg'', date_time = (2024, 5, 1, 9, 0, 0), raw = [2]\<rparr>,
       \<lparr>filename = ''M/a.jpg'', date_time = (2024, 5, 1, 8, 0, 0), raw = [1]\<rparr>]))
           = [''La cartella '' @ [CHR 0x27] @ ''M'' @ [CHR 0x27]
              @ '' contiene 3 immagini (attese: 2). Verranno usate le prime 2.'']
       \<and> length (images (process_folder sample_mktime (''M'',
      [\<lparr>filename = ''M/c.jpg'', date_time = (2024, 5, 1, 10, 0, 0), raw = [3]\<rparr>,
       \<lparr>filename = ''M/b.jpg'', date_time = (2024, 5, 1, 9, 0, 0), raw = [2]\<rparr>,
       \<lparr>filename = ''M/a.jpg'', date_time = (2024, 5, 1, 8, 0, 0), raw = [1]\<rparr>]))) = 2)"
  using images_at_most_two [of "process_folder sample_mktime (''M'',
      [\<lparr>filename = ''M/c.jpg'', date_time = (2024, 5, 1, 10, 0, 0), raw = [3]\<rparr>,
       \<lparr>filename = ''M/b.jpg'', date_time = (2024, 5, 1, 9, 0, 0), raw = [2]\<rparr>,
       \<lparr>filename = ''M/a.jpg'', date_time = (2024, 5, 1, 8, 0, 0), raw = [1]\<rparr>])" sample_mktime
      "[\<lparr>filename = ''M/c.jpg'', date_time = (2024, 5, 1, 10, 0, 0), raw = [3]\<rparr>,
       \<lparr>filename = ''M/b.jpg'', date_time = (2024, 5, 1, 9, 0, 0), raw = [2]\<rparr>,
       \<lparr>filename = ''M/a.jpg'', date_time = (2024, 5, 1, 8, 0, 0), raw = [1]\<rparr>]"]
  by (simp add: parse_zip_models_def collect_folders_three is_image_jpg_names Let_def
      numeral_3_eq_3 numeral_2_eq_2 str_nat_3 [unfolded numeral_3_eq_3])

text \<open>
  C7. In every emitted model group the image payloads follow the retained entries (sorted, at most
  two): payload \<open>k\<close> (counting from 0) has position \<open>k + 1\<close>, the base name of the entry's path as
  file name and the Base64 text of the entry's bytes as attachment.
\<close>

theorem image_payload_positions:
  assumes "g \<in> set (parse_zip_models mktime zf)"
  shows "\<exists>folder infos kept. (folder, infos) \<in> set (collect_folders zf) \<and> model g = folder
     \<and> kept = take 2 (filter (\<lambda>i. is_image (filename i))
                (sort_key (\<lambda>i. human_ts mktime (date_time i)) infos))
     \<and> length (images g) = length kept
     \<and> (\<forall>k < length kept. images g ! k =
           JObj [(''attachment'', JStr (b64encode (raw (kept ! k)))),
                 (''filename'', JStr (basename (filename (kept ! k)))),
                 (''position'', JNum (int k + 1))])"
proof -
  from assms obtain folder infos where m: "(folder, infos) \<in> set (collect_folders zf)"
    and g: "g = process_folder mktime (folder, infos)"
    by (auto simp: parse_zip_models_def)
  define kept where "kept = take 2 (filter (\<lambda>i. is_image (filename i))
                (sort_key (\<lambda>i. human_ts mktime (date_time i)) infos))"
  have im: "images g = map image_payload (zip [1 .. int (length kept)] kept)"
    by (simp add: g process_folder_eq Let_def kept_def)
  have l: "length (images g) = length kept"
    by (simp add: im)
  have "\<forall>k < length kept. images g ! k =
           JObj [(''attachment'', JStr (b64encode (raw (kept ! k)))),
                 (''filename'', JStr (basename (filename (kept ! k)))),
                 (''position'', JNum (int k + 1))]"
    using l by (simp add: im zip_upto_nth image_payload_def)
  moreover have "model g = folder"
    by (simp add: g process_folder_eq Let_def)
  ultimately show ?thesis
    using m l kept_def by blast
qed

theorem image_payload_positions_witness:
  "process_folder sample_mktime (''M'',
      [\<lparr>filename = ''M/b.jpg'', date_time = (2024, 5, 1, 10, 0, 0), raw = [2]\<rparr>,
       \<lparr>filename = ''M/a.jpg'', date_time = (2024, 5, 1, 9, 0, 0), raw = [1]\<rparr>])
     \<in> set (parse_zip_models sample_mktime
      [\<lparr>filename = ''M/b.jpg'', date_time = (2024, 5, 1, 10, 0, 0), raw = [2]\<rparr>,
       \<lparr>filename = ''M/a.jpg'', date_time = (2024, 5, 1, 9, 0, 0), raw = [1]\<rparr>])
   \<and> images (process_folder sample_mktime (''M'',
      [\<lparr>filename = ''M/b.jpg'', date_time = (2024, 5, 1, 10, 0, 0), raw = [2]\<rparr>,
       \<lparr>filename = ''M/a.jpg'', date_time = (2024, 5, 1, 9, 0, 0), raw = [1]\<rparr>]))
     = [JObj [(''attachment'', JStr ''AQ==''), (''filename'', JStr ''a.jpg''), (''position'', JNum 1)],
        JObj [(''attachment'', JStr ''Ag==''), (''filename'', JStr ''b.jpg''), (''position'', JNum 2)]]"
proof -
  let ?zf = "[\<lparr>filename = ''M/b.jpg'', date_time = (2024, 5, 1, 10, 0, 0), raw = [2]\<rparr>,
       \<lparr>filename = ''M/a.jpg'', date_time = (2024, 5, 1, 9, 0, 0), raw = [1]\<rparr>]"
  let ?g = "process_folder sample_mktime (''M'', ?zf)"
  have mem: "?g \<in> set (parse_zip_models sample_mktime ?zf)"
    by (simp add: parse_zip_models_def collect_folders_two)
  from image_payload_positions [OF mem]
  obtain folder infos kept where
    f: "(folder, infos) \<in> set (collect_folders ?zf)"
    and k: "kept = take 2 (filter (\<lambda>i. is_image (filename i))
                (sort_key (\<lambda>i. human_ts sample_mktime (date_time i)) infos))"
    and l: "length (images ?g) = length kept"
    and p: "\<forall>k < length kept. images ?g ! k =
           JObj [(''attachment'', JStr (b64encode (raw (kept ! k)))),
                 (''filename'', JStr (basename (filename (kept ! k)))),
                 (''position'', JNum (int k + 1))]"
    by blast
  from f have i: "infos = ?zf"
    by (simp add: collect_folders_two)
  have kept: "kept = [\<lparr>filename = ''M/a.jpg'', date_time = (2024, 5, 1, 9, 0, 0), raw = [1]\<rparr>,
                     \<lparr>filename = ''M/b.jpg'', date_time = (2024, 5, 1, 10, 0, 0), raw = [2]\<rparr>]"
    by (simp add: k i human_ts_sample is_image_jpg_names)
  have l2: "length (images ?g) = 2"
    using l by (simp add: kept)
  have p0: "images ?g ! 0 = JObj [(''attachment'', JStr ''AQ==''), (''filename'', JStr ''a.jpg''), (''position'', JNum 1)]"
    using p by (simp add: kept basename_def b64_char_def b64_alphabet_def)
  have p1: "images ?g ! 1 = JObj [(''attachment'', JStr ''Ag==''), (''filename'', JStr ''b.jpg''), (''position'', JNum 2)]"
    using p [rule_format, of 1] by (simp add: kept basename_def b64_char_def b64_alphabet_def)
  have "images ?g = [images ?g ! 0, images ?g ! 1]"
    using l2 by (auto simp: list_eq_iff_nth_eq less_Suc_eq numeral_2_eq_2)
  with mem p0 p1 show ?thesis by simp
qed

section \<open>Verification of the API client\<close>

subsection \<open>Scrubbing\<close>

lemma each_without_keys:
  "each (without_keys ks) (map JObj ds)
     = Inr (map (\<lambda>kvs. JObj (filter (\<lambda>kv. fst kv \<notin> set ks) kvs)) ds)"
  by (induction ds) simp_all

lemma map_of_filter_keys:
  "map_of (filter (\<lambda>kv. fst kv \<notin> S) kvs) k = (if k \<in> S then None else map_of kvs k)"
  by (induction kvs) auto

text \<open>
  C5, as the code has it. For a list of variant dictionaries, scrubbing yields one dictionary per
  variant, in order, in which the keys \<open>id\<close>, \<open>product_id\<close>, \<open>admin_graphql_api_id\<close>, \<open>position\<close>,
  \<open>created_at\<close>, \<open>updated_at\<close> and \<open>image_id\<close> are absent and every other key has the value it had;
  the entries kept stand in their original order. For options the same holds with the four keys
  \<open>id\<close>, \<open>product_id\<close>, \<open>admin_graphql_api_id\<close> and \<open>position\<close> only. A missing list (\<open>None\<close>)
  scrubs to the empty list.
\<close>

theorem scrub_drops_identity_fields:
  "(\<exists>ds'. scrub_variants (JArr (map JObj ds)) = Inr (map JObj ds')
      \<and> list_all2 (\<lambda>kvs kvs'.
            (\<forall>k. map_of kvs' k =
               (if k \<in> {''id'', ''product_id'', ''admin_graphql_api_id'', ''position'',
                         ''created_at'', ''updated_at'', ''image_id''}
                then None else map_of kvs k))
            \<and> kvs' = filter (\<lambda>kv. kv \<in> set kvs') kvs) ds ds')
   \<and> (\<exists>os'. scrub_options (JArr (map JObj os)) = Inr (map JObj os')
      \<and> list_all2 (\<lambda>kvs kvs'.
            (\<forall>k. map_of kvs' k =
               (if k \<in> {''id'', ''product_id'', ''admin_graphql_api_id'', ''position''}
                then None else map_of kvs k))
            \<and> kvs' = filter (\<lambda>kv. kv \<in> set kvs') kvs) os os')
   \<and> scrub_variants JNull = Inr [] \<and> scrub_options JNull = Inr []"
proof -
  let ?V = "[''id'', ''product_id'', ''admin_graphql_api_id'', ''position'',
             ''created_at'', ''updated_at'', ''image_id'']"
  let ?O = "[''id'', ''product_id'', ''admin_graphql_api_id'', ''position'']"
  have sub: "filter (\<lambda>kv. fst kv \<notin> S) kvs
      = filter (\<lambda>kv. kv \<in> set (filter (\<lambda>kv. fst kv \<notin> S) kvs)) kvs" for S and kvs :: "(string \<times> json) list"
    by (rule filter_cong) auto
  have v: "scrub_variants (JArr (map JObj ds))
      = Inr (map JObj (map (\<lambda>kvs. filter (\<lambda>kv. fst kv \<notin> set ?V) kvs) ds))"
    by (cases ds) (simp_all add: scrub_variants_def each_without_keys o_def Let_def del: set_simps)
  have o: "scrub_options (JArr (map JObj os))
      = Inr (map JObj (map (\<lambda>kvs. filter (\<lambda>kv. fst kv \<notin> set ?O) kvs) os))"
    by (cases os) (simp_all add: scrub_options_def each_without_keys o_def Let_def del: set_simps)
  have 1: "\<exists>ds'. scrub_variants (JArr (map JObj ds)) = Inr (map JObj ds')
      \<and> list_all2 (\<lambda>kvs kvs'.
            (\<forall>k. map_of kvs' k = (if k \<in> set ?V then None else map_of kvs k))
            \<and> kvs' = filter (\<lambda>kv. kv \<in> set kvs') kvs) ds ds'"
    apply (rule exI [of _ "map (\<lambda>kvs. filter (\<lambda>kv. fst kv \<notin> set ?V) kvs) ds"])
    apply (simp only: v list_all2_map2 map_of_filter_keys)
    using sub [of "set ?V"] by (simp add: list_all2_same del: set_simps)
  have 2: "\<exists>os'. scrub_options (JArr (map JObj os)) = Inr (map JObj os')
      \<and> list_all2 (\<lambda>kvs kvs'.
            (\<forall>k. map_of kvs' k = (if k \<in> set ?O then None else map_of kvs k))
            \<and> kvs' = filter (\<lambda>kv. kv \<in> set kvs') kvs) os os'"
    apply (rule exI [of _ "map (\<lambda>kvs. filter (\<lambda>kv. fst kv \<notin> set ?O) kvs) os"])
    apply (simp only: o list_all2_map2 map_of_filter_keys)
    using sub [of "set ?O"] by (simp add: list_all2_same del: set_simps)
  have 3: "scrub_variants JNull = Inr []" "scrub_options JNull = Inr []"
    by (simp_all add: scrub_variants_def scrub_options_def)
  from 1 2 3 show ?thesis by simp
qed


text \<open>
  C5, as the claim states it, fails for options: the claim lists the created and updated
  timestamps among the fields removed from options too, but \<open>_scrub_options\<close> keeps them.
\<close>

theorem scrub_options_keeps_timestamps:
  "scrub_options (JArr [JObj [(''id'', JNum 7), (''name'', JStr ''Size''),
                             (''created_at'', JStr ''2024-05-01''),
                             (''updated_at'', JStr ''2024-05-02'')]])
     = Inr [JObj [(''name'', JStr ''Size''), (''created_at'', JStr ''2024-05-01''),
                  (''updated_at'', JStr ''2024-05-02'')]]"
  by (simp add: scrub_options_def)


subsection \<open>Resolving a collection\<close>

lemma listing_data:
  assumes "listing r key items"
  shows "raise_for_status r = Inr ()"
    and "\<exists>j. r_json r = Inr j \<and> dict_get j key (JArr []) = Inr (JArr items)"
proof -
  from assms have ok: "ok_status r" by (simp add: listing_def)
  then show "raise_for_status r = Inr ()"
    by (simp add: ok_status_def raise_for_status_def)
  from assms obtain kvs where c: "content r = Some (JObj kvs)"
    by (auto simp: listing_def split: option.splits json.splits)
  with assms have "dict_get (JObj kvs) key (JArr []) = Inr (JArr items)"
    by (auto simp: listing_def split: option.splits json.splits)
  with c show "\<exists>j. r_json r = Inr j \<and> dict_get j key (JArr []) = Inr (JArr items)"
    by (simp add: r_json_def)
qed

lemma first_id_found: "has_id x cid \<Longrightarrow> first_id (JArr (x # rest)) = Inr cid"
  by (cases x) (simp_all add: first_id_def has_id_def bind_sum_def)

lemma first_id_absent: "first_id (JArr []) = Inr JNull"
  by (simp add: first_id_def)

lemma fetch_listing:
  assumes "listing (session self tr \<lparr>http_method = GET, req_url = u, params = ps, payload = None\<rparr>) key items"
  shows "bind (session_get self u ps) (\<lambda>r.
         bind (lift (raise_for_status r)) (\<lambda>_.
         bind (lift (r_json r)) (\<lambda>j.
         bind (lift (dict_get j key (JArr []))) k))) tr
       = k (JArr items) (tr @ [\<lparr>http_method = GET, req_url = u, params = ps, payload = None\<rparr>])"
proof -
  let ?rq = "\<lparr>http_method = GET, req_url = u, params = ps, payload = None\<rparr>"
  from listing_data [OF assms] obtain j where
    s: "raise_for_status (session self tr ?rq) = Inr ()"
    and j: "r_json (session self tr ?rq) = Inr j"
    and d: "dict_get j key (JArr []) = Inr (JArr items)"
    by blast
  show ?thesis
    by (simp add: bind_def session_get_def lift_def Let_def s j d)
qed

lemma find_smart_found:
  assumes "listing (session self tr (get_smart self title)) ''smart_collections'' (x # rest)"
    and "has_id x cid"
  shows "find_smart_collection self title tr = (Inr cid, tr @ [get_smart self title])"
  unfolding find_smart_collection_def
  by (subst fetch_listing [OF assms(1) [unfolded get_smart_def]])
    (simp add: get_smart_def lift_def first_id_found [OF assms(2)])

lemma find_smart_absent:
  assumes "listing (session self tr (get_smart self title)) ''smart_collections'' []"
  shows "find_smart_collection self title tr = (Inr JNull, tr @ [get_smart self title])"
  unfolding find_smart_collection_def
  by (subst fetch_listing [OF assms [unfolded get_smart_def]])
    (simp add: get_smart_def lift_def first_id_absent)

lemma find_custom_found:
  assumes "listing (session self tr (get_custom self title)) ''custom_collections'' (x # rest)"
    and "has_id x cid"
  shows "find_custom_collection self title tr = (Inr cid, tr @ [get_custom self title])"
  unfolding find_custom_collection_def
  by (subst fetch_listing [OF assms(1) [unfolded get_custom_def]])
    (simp add: get_custom_def lift_def first_id_found [OF assms(2)])

lemma find_custom_absent:
  assumes "listing (session self tr (get_custom self title)) ''custom_collections'' []"
  shows "find_custom_collection self title tr = (Inr JNull, tr @ [get_custom self title])"
  unfolding find_custom_collection_def
  by (subst fetch_listing [OF assms [unfolded get_custom_def]])
    (simp add: get_custom_def lift_def first_id_absent)

lemma created_data:
  assumes "reports_created r cid"
  shows "raise_for_status r = Inr ()"
    and "\<exists>j. r_json r = Inr j
           \<and> bind_sum (subscript j ''custom_collection'') (\<lambda>c. subscript c ''id'') = Inr cid"
proof -
  from assms have ok: "ok_status r" by (simp add: reports_created_def)
  then show "raise_for_status r = Inr ()"
    by (simp add: ok_status_def raise_for_status_def)
  from assms obtain kvs where c: "content r = Some (JObj kvs)"
    by (auto simp: reports_created_def split: option.splits json.splits)
  with assms obtain cc where cc: "map_of kvs ''custom_collection'' = Some cc" and h: "has_id cc cid"
    by (auto simp: reports_created_def split: option.splits)
  from h have "subscript cc ''id'' = Inr cid"
    by (cases cc) (simp_all add: has_id_def)
  with cc have "bind_sum (subscript (JObj kvs) ''custom_collection'') (\<lambda>c. subscript c ''id'') = Inr cid"
    by (simp add: bind_sum_def)
  with c show "\<exists>j. r_json r = Inr j
           \<and> bind_sum (subscript j ''custom_collection'') (\<lambda>c. subscript c ''id'') = Inr cid"
    by (simp add: r_json_def)
qed

lemma create_custom:
  assumes "reports_created (session self tr (post_custom self title)) cid"
  shows "bind (session_post self (base self @ ''/custom_collections.json'')
                 (JObj [(''custom_collection'', JObj [(''title'', JStr title)])])) (\<lambda>r.
         bind (lift (raise_for_status r)) (\<lambda>_.
         bind (lift (r_json r)) (\<lambda>j.
         lift (bind_sum (subscript j ''custom_collection'') (\<lambda>c. subscript c ''id''))))) tr
       = (Inr cid, tr @ [post_custom self title])"
proof -
  from created_data [OF assms] obtain j where
    s: "raise_for_status (session self tr (post_custom self title)) = Inr ()"
    and j: "r_json (session self tr (post_custom self title)) = Inr j"
    and d: "bind_sum (subscript j ''custom_collection'') (\<lambda>c. subscript c ''id'') = Inr cid"
    by blast
  show ?thesis
    using s j d by (simp add: bind_def session_post_def lift_def Let_def post_custom_def)
qed

lemma by_title_smart:
  assumes "listing (session self tr (get_smart self title)) ''smart_collections'' (x # rest)"
    and "has_id x cid" and "truthy cid"
  shows "ensure_by_title self title tr = (Inr cid, tr @ [get_smart self title])"
  using find_smart_found [OF assms(1,2)] assms(3)
  by (simp add: ensure_by_title_def bind_def ret_def)

lemma by_title_custom:
  assumes "listing (session self tr (get_smart self title)) ''smart_collections'' []"
    and "listing (session self (tr @ [get_smart self title]) (get_custom self title))
           ''custom_collections'' (x # rest)"
    and "has_id x cid" and "truthy cid"
  shows "ensure_by_title self title tr
         = (Inr cid, tr @ [get_smart self title, get_custom self title])"
  using find_smart_absent [OF assms(1)] find_custom_found [OF assms(2,3)] assms(4)
  by (simp add: ensure_by_title_def bind_def ret_def)

lemma by_title_create:
  assumes "listing (session self tr (get_smart self title)) ''smart_collections'' []"
    and "listing (session self (tr @ [get_smart self title]) (get_custom self title))
           ''custom_collections'' []"
    and "reports_created (session self (tr @ [get_smart self title, get_custom self title])
           (post_custom self title)) cid"
  shows "ensure_by_title self title tr
         = (Inr cid, tr @ [get_smart self title, get_custom self title, post_custom self title])"
proof -
  have "ensure_by_title self title tr
      = bind (session_post self (base self @ ''/custom_collections.json'')
                 (JObj [(''custom_collection'', JObj [(''title'', JStr title)])])) (\<lambda>r.
         bind (lift (raise_for_status r)) (\<lambda>_.
         bind (lift (r_json r)) (\<lambda>j.
         lift (bind_sum (subscript j ''custom_collection'') (\<lambda>c. subscript c ''id'')))))
          (tr @ [get_smart self title, get_custom self title])"
    using find_smart_absent [OF assms(1)] find_custom_absent [OF assms(2)]
    by (simp add: ensure_by_title_def bind_def [of "find_smart_collection self title"]
        bind_def [of "find_custom_collection self title"])
  also have "\<dots> = (Inr cid, (tr @ [get_smart self title, get_custom self title]) @ [post_custom self title])"
    by (rule create_custom [OF assms(3)])
  finally show ?thesis by simp
qed

lemma ensure_not_home:
  "\<not> is_home_title title \<Longrightarrow> ensure_collection self title = ensure_by_title self title"
  unfolding ensure_collection_def is_home_title_def by (simp only: if_False)

lemma ensure_home_found:
  assumes "is_home_title title"
    and "listing (session self tr (get_frontpage self)) ''custom_collections'' (x # rest)"
    and "has_id x cid"
  shows "ensure_collection self title tr = (Inr cid, tr @ [get_frontpage self])"
proof -
  have s: "subscript x ''id'' = Inr cid"
    using assms(3) by (cases x) (simp_all add: has_id_def)
  have "ensure_collection self title tr =
     bind (session_get self (base self @ ''/custom_collections.json'')
                [(''handle'', JStr ''frontpage''), (''limit'', JNum 1)]) (\<lambda>r.
        bind (lift (raise_for_status r)) (\<lambda>_.
        bind (lift (r_json r)) (\<lambda>j.
        bind (lift (dict_get j ''custom_collections'' (JArr []))) (\<lambda>data.
        if truthy data then lift (bind_sum (subscript0 data) (\<lambda>x. subscript x ''id''))
        else ensure_by_title self title)))) tr"
    using assms(1) unfolding ensure_collection_def is_home_title_def by (simp only: if_True)
  also have "\<dots> = (Inr cid, tr @ [get_frontpage self])"
    by (subst fetch_listing [OF assms(2) [unfolded get_frontpage_def]])
      (simp add: get_frontpage_def lift_def bind_sum_def s)
  finally show ?thesis .
qed

lemma ensure_home_absent:
  assumes "is_home_title title"
    and "listing (session self tr (get_frontpage self)) ''custom_collections'' []"
  shows "ensure_collection self title tr = ensure_by_title self title (tr @ [get_frontpage self])"
proof -
  have "ensure_collection self title tr =
     bind (session_get self (base self @ ''/custom_collections.json'')
                [(''handle'', JStr ''frontpage''), (''limit'', JNum 1)]) (\<lambda>r.
        bind (lift (raise_for_status r)) (\<lambda>_.
        bind (lift (r_json r)) (\<lambda>j.
        bind (lift (dict_get j ''custom_collections'' (JArr []))) (\<lambda>data.
        if truthy data then lift (bind_sum (subscript0 data) (\<lambda>x. subscript x ''id''))
        else ensure_by_title self title)))) tr"
    using assms(1) unfolding ensure_collection_def is_home_title_def by (simp only: if_True)
  also have "\<dots> = ensure_by_title self title (tr @ [get_frontpage self])"
    by (subst fetch_listing [OF assms(2) [unfolded get_frontpage_def]])
      (simp add: get_frontpage_def)
  finally show ?thesis .
qed

lemma bind_trace_prefix:
  assumes "\<And>x t. \<exists>more. snd (f x t) = t @ more"
  shows "\<exists>more. snd (bind (lift r) f t) = t @ more"
  using assms by (cases r) (auto simp: bind_def lift_def)

lemma ensure_home_first_request:
  assumes "is_home_title title"
  shows "\<exists>more. snd (ensure_collection self title tr) = tr @ get_frontpage self # more"
proof -
  let ?k = "\<lambda>r. bind (lift (raise_for_status r)) (\<lambda>_.
        bind (lift (r_json r)) (\<lambda>j.
        bind (lift (dict_get j ''custom_collections'' (JArr []))) (\<lambda>data.
        if truthy data then lift (bind_sum (subscript0 data) (\<lambda>x. subscript x ''id''))
        else ensure_by_title self title)))"
  have e: "ensure_collection self title tr =
     bind (session_get self (base self @ ''/custom_collections.json'')
                [(''handle'', JStr ''frontpage''), (''limit'', JNum 1)]) ?k tr"
    using assms unfolding ensure_collection_def is_home_title_def by (simp only: if_True)
  have g: "\<exists>more. snd (find_smart_collection self title t) = t @ more" for t
    by (auto simp: find_smart_collection_def bind_def session_get_def lift_def Let_def
        split: sum.splits)
  have c: "\<exists>more. snd (find_custom_collection self title t) = t @ more" for t
    by (auto simp: find_custom_collection_def bind_def session_get_def lift_def Let_def
        split: sum.splits)
  have p: "\<exists>more. snd (bind (session_post self u js) (\<lambda>r.
         bind (lift (raise_for_status r)) (\<lambda>_.
         bind (lift (r_json r)) (\<lambda>j.
         lift (bind_sum (subscript j ''custom_collection'') (\<lambda>c. subscript c ''id''))))) t) = t @ more" for t u js
    by (auto simp: bind_def session_post_def lift_def Let_def split: sum.splits)
  have b: "\<exists>more. snd (ensure_by_title self title t) = t @ more" for t
  proof (cases "find_smart_collection self title t")
    case (Pair r1 t1)
    from g [of t] Pair obtain m1 where t1: "t1 = t @ m1" by auto
    show ?thesis
    proof (cases r1)
      case (Inl e)
      with Pair t1 show ?thesis by (simp add: ensure_by_title_def bind_def)
    next
      case (Inr cid)
      show ?thesis
      proof (cases "truthy cid")
        case True
        with Pair Inr t1 show ?thesis by (simp add: ensure_by_title_def bind_def ret_def)
      next
        case False
        show ?thesis
        proof (cases "find_custom_collection self title t1")
          case (Pair r2 t2)
          from c [of t1] Pair obtain m2 where t2: "t2 = t1 @ m2" by auto
          show ?thesis
          proof (cases r2)
            case (Inl e)
            with Pair \<open>find_smart_collection self title t = (r1, t1)\<close> \<open>r1 = Inr cid\<close> False t1 t2
            show ?thesis by (simp add: ensure_by_title_def bind_def)
          next
            case (Inr cid2)
            show ?thesis
            proof (cases "truthy cid2")
              case True
              with Pair Inr \<open>find_smart_collection self title t = (r1, t1)\<close> \<open>r1 = Inr cid\<close> False t1 t2
              show ?thesis by (simp add: ensure_by_title_def bind_def ret_def)
            next
              case F2: False
              from p [of _ _ t2] obtain m3 where
                "snd (bind (session_post self (base self @ ''/custom_collections.json'')
                 (JObj [(''custom_collection'', JObj [(''title'', JStr title)])])) (\<lambda>r.
         bind (lift (raise_for_status r)) (\<lambda>_.
         bind (lift (r_json r)) (\<lambda>j.
         lift (bind_sum (subscript j ''custom_collection'') (\<lambda>c. subscript c ''id''))))) t2) = t2 @ m3"
                by blast
              with Pair Inr \<open>find_smart_collection self title t = (r1, t1)\<close> \<open>r1 = Inr cid\<close> False F2 t1 t2
              show ?thesis
                by (simp add: ensure_by_title_def bind_def [of "find_smart_collection self title"]
                    bind_def [of "find_custom_collection self title"])
            qed
          qed
        qed
      qed
    qed
  qed
  let ?t = "tr @ [get_frontpage self]"
  have k: "\<exists>more. snd (?k r ?t) = ?t @ more" for r
    apply (rule bind_trace_prefix)
    apply (rule bind_trace_prefix)
    apply (rule bind_trace_prefix)
    using b by (auto simp: lift_def)
  have "ensure_collection self title tr = ?k (session self tr (get_frontpage self)) ?t"
    by (simp add: e bind_def [of "session_get self _ _"] session_get_def Let_def get_frontpage_def)
  with k [of "session self tr (get_frontpage self)"] show ?thesis by auto
qed

lemma home_titles:
  "is_home_title ''Homepage''" "is_home_title '' HOME ''"
  "\<not> is_home_title ''Decorative''" "\<not> is_home_title ''Pellicole per Vetri''"
  "\<not> is_home_title ''Nuova''"
  by code_simp+

lemma sample_frontpage:
  "listing (session sample_client tr (get_frontpage sample_client)) ''custom_collections''
     [JObj [(''id'', JNum 1), (''handle'', JStr ''frontpage'')]]"
  by (simp add: listing_def ok_status_def sample_client_def ShopifyClient_def sample_shop_def
      get_frontpage_def ok_json_def)

lemma sample_smart:
  "listing (session sample_client tr (get_smart sample_client title)) ''smart_collections''
     (if title = ''Decorative''
      then [JObj [(''id'', JNum 22), (''title'', JStr ''Decorative'')]] else [])"
  by (simp add: listing_def ok_status_def sample_client_def ShopifyClient_def sample_shop_def
      get_smart_def ok_json_def title_param_def endswith_def)

lemma sample_custom:
  "listing (session sample_client tr (get_custom sample_client title)) ''custom_collections''
     (if title = ''Pellicole per Vetri''
      then [JObj [(''id'', JNum 33), (''title'', JStr ''Pellicole per Vetri'')]] else [])"
  by (simp add: listing_def ok_status_def sample_client_def ShopifyClient_def sample_shop_def
      get_custom_def ok_json_def title_param_def endswith_def)

lemma sample_post:
  "reports_created (session sample_client tr (post_custom sample_client title)) (JNum 44)"
  by (simp add: reports_created_def ok_status_def sample_client_def ShopifyClient_def
      sample_shop_def post_custom_def ok_json_def has_id_def)

text \<open>
  C4. When the trimmed, lower-cased title is one of the home-page names, the first request of
  \<open>ensure_collection\<close> is the lookup of custom collections by handle \<open>frontpage\<close>, and when that
  lookup lists a collection its id is returned after this single request, so nothing is created.
  When the title is not resolved that way (it is not a home-page name, or the lookup by handle
  lists nothing), the smart collections are looked up by title, then the custom collections by
  title, the first id found being returned; only when both lookups list nothing is a custom
  collection with that title created, and the id of the created collection returned. The trace
  of requests is stated exactly in each case. An id counts as found when it is truthy, as in
  \<open>if cid:\<close>.
\<close>

theorem ensure_collection_lookup_order:
  "(is_home_title title \<longrightarrow>
      (\<exists>more. snd (ensure_collection self title tr) = tr @ get_frontpage self # more))
   \<and> (is_home_title title
        \<and> listing (session self tr (get_frontpage self)) ''custom_collections'' (x # rest)
        \<and> has_id x cid
      \<longrightarrow> ensure_collection self title tr = (Inr cid, tr @ [get_frontpage self]))
   \<and> ((is_home_title title
          \<longrightarrow> listing (session self tr (get_frontpage self)) ''custom_collections'' [])
        \<and> tr1 = (if is_home_title title then tr @ [get_frontpage self] else tr)
      \<longrightarrow>
        (listing (session self tr1 (get_smart self title)) ''smart_collections'' (x # rest)
           \<and> has_id x cid \<and> truthy cid
         \<longrightarrow> ensure_collection self title tr = (Inr cid, tr1 @ [get_smart self title]))
      \<and> (listing (session self tr1 (get_smart self title)) ''smart_collections'' []
           \<and> listing (session self (tr1 @ [get_smart self title]) (get_custom self title))
                ''custom_collections'' (x # rest)
           \<and> has_id x cid \<and> truthy cid
         \<longrightarrow> ensure_collection self title tr
             = (Inr cid, tr1 @ [get_smart self title, get_custom self title]))
      \<and> (listing (session self tr1 (get_smart self title)) ''smart_collections'' []
           \<and> listing (session self (tr1 @ [get_smart self title]) (get_custom self title))
                ''custom_collections'' []
           \<and> reports_created (session self (tr1 @ [get_smart self title, get_custom self title])
                (post_custom self title)) cid
         \<longrightarrow> ensure_collection self title tr
             = (Inr cid, tr1 @ [get_smart self title, get_custom self title,
                                post_custom self title])))"
proof (intro conjI impI)
  assume "is_home_title title"
  then show "\<exists>more. snd (ensure_collection self title tr) = tr @ get_frontpage self # more"
    by (rule ensure_home_first_request)
next
  assume "is_home_title title
        \<and> listing (session self tr (get_frontpage self)) ''custom_collections'' (x # rest)
        \<and> has_id x cid"
  then show "ensure_collection self title tr = (Inr cid, tr @ [get_frontpage self])"
    using ensure_home_found by blast
next
  assume a: "(is_home_title title
          \<longrightarrow> listing (session self tr (get_frontpage self)) ''custom_collections'' [])
        \<and> tr1 = (if is_home_title title then tr @ [get_frontpage self] else tr)"
  then have e: "ensure_collection self title tr = ensure_by_title self title tr1"
    using ensure_home_absent [of title self tr] ensure_not_home [of title self]
    by (cases "is_home_title title") simp_all
  {
    assume "listing (session self tr1 (get_smart self title)) ''smart_collections'' (x # rest)
           \<and> has_id x cid \<and> truthy cid"
    then show "ensure_collection self title tr = (Inr cid, tr1 @ [get_smart self title])"
      using by_title_smart [of self tr1 title x rest cid] e by simp
  next
    assume "listing (session self tr1 (get_smart self title)) ''smart_collections'' []
           \<and> listing (session self (tr1 @ [get_smart self title]) (get_custom self title))
                ''custom_collections'' (x # rest)
           \<and> has_id x cid \<and> truthy cid"
    then show "ensure_collection self title tr
             = (Inr cid, tr1 @ [get_smart self title, get_custom self title])"
      using by_title_custom [of self tr1 title x rest cid] e by simp
  next
    assume "listing (session self tr1 (get_smart self title)) ''smart_collections'' []
           \<and> listing (session self (tr1 @ [get_smart self title]) (get_custom self title))
                ''custom_collections'' []
           \<and> reports_created (session self (tr1 @ [get_smart self title, get_custom self title])
                (post_custom self title)) cid"
    then show "ensure_collection self title tr
             = (Inr cid, tr1 @ [get_smart self title, get_custom self title,
                                post_custom self title])"
      using by_title_create [of self tr1 title cid] e by simp
  }
qed

theorem ensure_collection_lookup_order_witness:
  "is_home_title '' HOME ''
   \<and> ensure_collection sample_client '' HOME '' [] = (Inr (JNum 1), [get_frontpage sample_client])
   \<and> \<not> is_home_title ''Decorative''
   \<and> ensure_collection sample_client ''Decorative'' []
       = (Inr (JNum 22), [get_smart sample_client ''Decorative''])
   \<and> ensure_collection sample_client ''Pellicole per Vetri'' []
       = (Inr (JNum 33), [get_smart sample_client ''Pellicole per Vetri'',
                          get_custom sample_client ''Pellicole per Vetri''])
   \<and> ensure_collection sample_client ''Nuova'' []
       = (Inr (JNum 44), [get_smart sample_client ''Nuova'', get_custom sample_client ''Nuova'',
                          post_custom sample_client ''Nuova''])"
  using
    ensure_collection_lookup_order [of "'' HOME ''" sample_client "[]"
      "JObj [(''id'', JNum 1), (''handle'', JStr ''frontpage'')]" "[]" "JNum 1" "[]"]
    ensure_collection_lookup_order [of "''Decorative''" sample_client "[]"
      "JObj [(''id'', JNum 22), (''title'', JStr ''Decorative'')]" "[]" "JNum 22" "[]"]
    ensure_collection_lookup_order [of "''Pellicole per Vetri''" sample_client "[]"
      "JObj [(''id'', JNum 33), (''title'', JStr ''Pellicole per Vetri'')]" "[]" "JNum 33" "[]"]
    ensure_collection_lookup_order [of "''Nuova''" sample_client "[]" _ _ "JNum 44" "[]"]
    home_titles sample_frontpage [of "[]"]
    sample_smart [of "[]" "''Decorative''"] sample_smart [of "[]" "''Pellicole per Vetri''"]
    sample_smart [of "[]" "''Nuova''"]
    sample_custom [of "[get_smart sample_client ''Pellicole per Vetri'']" "''Pellicole per Vetri''"]
    sample_custom [of "[get_smart sample_client ''Nuova'']" "''Nuova''"]
    sample_post [of "[get_smart sample_client ''Nuova'', get_custom sample_client ''Nuova'']" "''Nuova''"]
  by (simp add: has_id_def)


section \<open>Verification of product creation\<close>

lemma create_product_attr:
  "class_attr ShopifyClient_body ''create_product'' = Some def_create_product_l281"
  by (simp add: class_attr_def ShopifyClient_body_def)

lemma create_product_l211_request:
  "\<exists>r. create_product_l211 self title body_html images_payload JNull tr
         = (r, tr @ [\<lparr>http_method = POST, req_url = base self @ ''/products.json'', params = [],
                      payload = Some (JObj [(''product'',
                        JObj [(''title'', title), (''body_html'', body_html),
                              (''images'', images_payload)])])\<rparr>])"
  by (simp add: create_product_l211_def bind_def ret_def session_post_def lift_def Let_def
      split: sum.splits prod.splits)

lemma create_product_l211_template_request:
  assumes "kvs \<noteq> []"
    and "bind_sum (dict_get (JObj kvs) ''options'' JNull) scrub_options = Inr opts"
    and "bind_sum (dict_get (JObj kvs) ''variants'' JNull) scrub_variants = Inr vars"
  shows "\<exists>r. create_product_l211 self title body_html images_payload (JObj kvs) tr
         = (r, tr @ [\<lparr>http_method = POST, req_url = base self @ ''/products.json'', params = [],
                      payload = Some (JObj [(''product'',
                        JObj [(''title'', title), (''body_html'', body_html),
                              (''images'', images_payload),
                              (''vendor'', case map_of kvs ''vendor'' of None \<Rightarrow> JNull | Some v \<Rightarrow> v),
                              (''product_type'', case map_of kvs ''product_type'' of None \<Rightarrow> JNull | Some v \<Rightarrow> v),
                              (''tags'', case map_of kvs ''tags'' of None \<Rightarrow> JNull | Some v \<Rightarrow> v),
                              (''options'', JArr opts), (''variants'', JArr vars)])])\<rparr>])"
  using assms
  by (simp add: create_product_l211_def bind_def ret_def session_post_def lift_def Let_def
      bind_sum_def dict_update_def split: sum.splits prod.splits)

lemma create_product_l281_request:
  "\<exists>r. create_product_l281 self title body_html images_payload tr
         = (r, tr @ [\<lparr>http_method = POST, req_url = base self @ ''/products.json'', params = [],
                      payload = Some (JObj [(''product'',
                        JObj [(''title'', title), (''body_html'', body_html),
                              (''images'', images_payload)])])\<rparr>])"
  by (simp add: create_product_l281_def bind_def ret_def session_post_def lift_def Let_def
      split: sum.splits prod.splits)

text \<open>
  C1. The claim fails on the program: the class body defines \<open>create_product\<close> a second time
  without the \<open>template\<close> parameter, and that definition is the one a call reaches. Every call
  that supplies a template, by keyword as the batch loop does or as a fourth positional argument,
  raises \<open>TypeError\<close> before any request is sent; a call with three arguments runs the second
  definition, whose request holds the title, the body and the images. With duplication switched
  off the batch loop still passes \<open>template=None\<close>, so it ends at its first model with that
  exception, which the handler for HTTP errors does not catch.
\<close>

theorem create_product_rejects_template:
  "create_product self []
     [(''title'', title), (''body_html'', body_html), (''images_payload'', images_payload),
      (''template'', template)] tr = (Inl TypeError, tr)
   \<and> create_product self [title, body_html, images_payload, template] [] tr = (Inl TypeError, tr)
   \<and> create_product self [title, body_html, images_payload] [] tr
       = create_product_l281 self title body_html images_payload tr
   \<and> batch_loop create_product client (ui\<lparr>duplication_enabled := False\<rparr>) template_product
        source_collection_ids collection_ids (m # ms) results tr
       = ((Some TypeError, results), tr)"
  by (simp add: create_product_def create_product_attr call_def def_create_product_l281_def
      bind_arguments_def raise_def process_model_def bind_def ret_def)


section \<open>Verification of the batch orchestrator\<close>

lemma joined_defaults:
  "join '', '' DEFAULT_COLLECTIONS = ''Homepage, Pellicole per Vetri, Decorative''"
  by (simp add: DEFAULT_COLLECTIONS_def)

lemma error_record_summary: "collections_summary (error_record model_name detail)"
  by (simp add: collections_summary_def error_record_def joined_defaults)

lemma success_record_summary:
  "success_record model_name pid product = Inr row \<Longrightarrow> collections_summary row"
  by (cases product)
    (auto simp: collections_summary_def success_record_def bind_sum_def joined_defaults)

lemma process_model_summary:
  assumes "process_model cp client ui tpl sids cids m tr = (Inr row, tr')"
  shows "collections_summary row"
proof -
  from assms obtain pid product where "success_record (model m) pid product = Inr row"
    by (auto simp: process_model_def bind_def lift_def split: sum.splits prod.splits if_splits)
  then show ?thesis by (rule success_record_summary)
qed

lemma batch_loop_summary:
  assumes "batch_loop cp client ui tpl sids cids models results tr = ((err, rows), tr')"
    and "list_all collections_summary results"
  shows "list_all collections_summary rows"
  using assms
proof (induction models arbitrary: results tr)
  case Nil
  then show ?case by simp
next
  case (Cons m ms)
  obtain a tr1 where p: "process_model cp client ui tpl sids cids m tr = (a, tr1)"
    by (cases "process_model cp client ui tpl sids cids m tr")
  show ?case
  proof (cases a)
    case (Inr row)
    with p have "collections_summary row" by (simp add: process_model_summary)
    with Cons.prems(2) have "list_all collections_summary (results @ [row])" by simp
    moreover from Cons.prems(1) p Inr
    have "batch_loop cp client ui tpl sids cids ms (results @ [row]) tr1 = ((err, rows), tr')"
      by simp
    ultimately show ?thesis by (rule Cons.IH [rotated])
  next
    case (Inl e)
    show ?thesis
    proof (cases "\<exists>r. e = HTTPError r")
      case True
      then obtain r where e: "e = HTTPError r" by blast
      have "list_all collections_summary (results @ [error_record (model m) (error_detail r)])"
        using Cons.prems(2) by (simp add: error_record_summary)
      moreover from Cons.prems(1) p Inl e
      have "batch_loop cp client ui tpl sids cids ms
              (results @ [error_record (model m) (error_detail r)]) tr1 = ((err, rows), tr')"
        by simp
      ultimately show ?thesis by (rule Cons.IH [rotated])
    next
      case False
      with Cons.prems(1) p Inl have "rows = results" by (cases e) auto
      with Cons.prems(2) show ?thesis by simp
    qed
  qed
qed

text \<open>
  Whatever function is bound to \<open>create_product\<close>, whatever the settings, the template, the
  snapshot of its collections and the resolved collection map, every record the batch loop has
  appended, success or error, has as collections summary the default titles joined by comma and
  space.
\<close>

lemma appended_rows_have_default_summary:
  "\<forall>row \<in> set (snd (fst (batch_loop cp client ui template_product source_collection_ids
                              collection_ids models [] tr))).
     dict_get row ''Collezioni'' JNull = Inr (JStr ''Homepage, Pellicole per Vetri, Decorative'')"
proof -
  obtain err rows tr' where
    "batch_loop cp client ui template_product source_collection_ids collection_ids models [] tr
       = ((err, rows), tr')"
    by (metis prod.exhaust)
  moreover from this have "list_all collections_summary rows"
    by (rule batch_loop_summary) simp
  ultimately show ?thesis by (simp add: list_all_iff collections_summary_def)
qed

lemma batch_loop_caught:
  assumes "list_all caught (attempts cp client ui tpl sids cids models tr)"
  shows "\<exists>tr'. batch_loop cp client ui tpl sids cids models results tr
           = ((None, results @ map2 row_of models (attempts cp client ui tpl sids cids models tr)),
              tr')"
  using assms
proof (induction models arbitrary: results tr)
  case Nil
  then show ?case by simp
next
  case (Cons m ms)
  obtain a tr1 where p: "process_model cp client ui tpl sids cids m tr = (a, tr1)"
    by (cases "process_model cp client ui tpl sids cids m tr")
  with Cons.prems have c: "caught a"
    and rest: "list_all caught (attempts cp client ui tpl sids cids ms tr1)"
    by simp_all
  from c have step: "batch_loop cp client ui tpl sids cids (m # ms) results tr
      = batch_loop cp client ui tpl sids cids ms (results @ [row_of m a]) tr1"
    using p by (auto simp: caught_def row_of_def split: sum.splits error.splits)
  from Cons.IH [OF rest, of "results @ [row_of m a]"] obtain tr' where
    "batch_loop cp client ui tpl sids cids ms (results @ [row_of m a]) tr1
       = ((None, (results @ [row_of m a])
            @ map2 row_of ms (attempts cp client ui tpl sids cids ms tr1)), tr')"
    by blast
  with step p show ?case by simp
qed

lemma success_record_shape:
  "success_record model_name pid product = Inr row \<Longrightarrow> is_success_record model_name row"
  by (cases product) (auto simp: success_record_def bind_sum_def is_success_record_def)

lemma process_model_success:
  assumes "process_model cp client ui tpl sids cids m tr = (Inr row, tr')"
  shows "is_success_record (model m) row"
proof -
  from assms obtain pid product where "success_record (model m) pid product = Inr row"
    by (auto simp: process_model_def bind_def lift_def split: sum.splits prod.splits if_splits)
  then show ?thesis by (rule success_record_shape)
qed

lemma attempts_length [simp]:
  "length (attempts cp client ui tpl sids cids models tr) = length models"
  by (induction models arbitrary: tr) (auto split: prod.splits)

lemma attempts_success:
  "j < length models \<Longrightarrow> attempts cp client ui tpl sids cids models tr ! j = Inr row
     \<Longrightarrow> is_success_record (model (models ! j)) row"
proof (induction models arbitrary: tr j)
  case Nil
  then show ?case by simp
next
  case (Cons m ms)
  obtain a tr1 where p: "process_model cp client ui tpl sids cids m tr = (a, tr1)"
    by (cases "process_model cp client ui tpl sids cids m tr")
  show ?case
  proof (cases j)
    case 0
    with Cons.prems p show ?thesis by (simp add: process_model_success)
  next
    case (Suc k)
    with Cons.prems p show ?thesis by (simp add: Cons.IH)
  qed
qed

lemma error_detail_cases:
  "error_detail r
     = (case content r of Some j \<Rightarrow> j | None \<Rightarrow> JObj [(''error'', JStr (http_error_msg r))])"
  by (simp add: error_detail_def r_json_def split: option.splits)

text \<open>
  Whatever function is bound to \<open>create_product\<close>: take the outcomes of the \<open>try\<close> bodies of the
  models, processed one after the other. When the body of exactly one model, the one at index
  \<open>i\<close>, raises an HTTP error with response \<open>r\<close> and every other body returns its record, the
  loop finishes without an uncaught exception and yields as many records as there are models: at
  index \<open>i\<close> the error record of that model, with status \<open>ERRORE\<close> and, under \<open>Errore\<close>, the
  parsed body of \<open>r\<close>, or the message of the exception under the key \<open>error\<close> when the body is
  not JSON; at every other index the success record of the model at that index, those after \<open>i\<close>
  included.
\<close>

lemma loop_survives_one_http_failure:
  assumes "outs = attempts cp client ui template_product source_collection_ids collection_ids
                    models tr"
    and "i < length models"
    and "outs ! i = Inl (HTTPError r)"
    and "\<forall>j < length models. j \<noteq> i \<longrightarrow> (\<exists>row. outs ! j = Inr row)"
  shows "\<exists>rows tr'.
           batch_loop cp client ui template_product source_collection_ids collection_ids
             models [] tr = ((None, rows), tr')
           \<and> length rows = length models
           \<and> rows ! i = error_record (model (models ! i))
                (case content r of
                   Some j \<Rightarrow> j
                 | None \<Rightarrow> JObj [(''error'', JStr (http_error_msg r))])
           \<and> rows ! i
               = JObj [(''Modello'', JStr (model (models ! i))),
                       (''Product ID'', JStr [CHR 0xE2, CHR 0x80, CHR 0x94]),
                       (''Titolo'', JStr (''SOLAR SCREEN'' @ [CHR 0xAE]
                                          @ '' Pellicole Decorative - '' @ model (models ! i))),
                       (''Handle'', JStr [CHR 0xE2, CHR 0x80, CHR 0x94]),
                       (''Status'', JStr ''ERRORE''),
                       (''Collezioni'', JStr ''Homepage, Pellicole per Vetri, Decorative''),
                       (''Errore'', case content r of
                                      Some j \<Rightarrow> j
                                    | None \<Rightarrow> JObj [(''error'', JStr (http_error_msg r))])]
           \<and> (\<forall>j < length models. j \<noteq> i \<longrightarrow>
                 outs ! j = Inr (rows ! j) \<and> is_success_record (model (models ! j)) (rows ! j))"
proof -
  let ?outs = "attempts cp client ui template_product source_collection_ids collection_ids
                 models tr"
  have len: "length ?outs = length models" by simp
  have "caught (?outs ! j)" if "j < length models" for j
  proof (cases "j = i")
    case True
    with assms(1,3) show ?thesis by (simp add: caught_def)
  next
    case False
    with assms(1,4) that obtain row where "?outs ! j = Inr row" by blast
    then show ?thesis by (simp add: caught_def)
  qed
  then have "list_all caught ?outs"
    by (simp add: list_all_length)
  from batch_loop_caught [OF this, of "[]"] obtain tr' where
    run: "batch_loop cp client ui template_product source_collection_ids collection_ids
            models [] tr = ((None, map2 row_of models ?outs), tr')"
    by auto
  let ?rows = "map2 row_of models ?outs"
  have l: "length ?rows = length models" by simp
  have nth: "?rows ! j = row_of (models ! j) (?outs ! j)" if "j < length models" for j
    using that by simp
  have e: "?rows ! i = error_record (model (models ! i))
                (case content r of
                   Some j \<Rightarrow> j
                 | None \<Rightarrow> JObj [(''error'', JStr (http_error_msg r))])"
    using nth [OF assms(2)] assms(1,3) by (simp add: row_of_def error_detail_cases)
  have s: "outs ! j = Inr (?rows ! j) \<and> is_success_record (model (models ! j)) (?rows ! j)"
    if "j < length models" "j \<noteq> i" for j
  proof -
    from assms(1,4) that obtain row where o: "?outs ! j = Inr row" by blast
    with nth [OF that(1)] have "?rows ! j = row" by (simp add: row_of_def)
    with o attempts_success [OF that(1) o] assms(1) show ?thesis by simp
  qed
  have e': "?rows ! i
               = JObj [(''Modello'', JStr (model (models ! i))),
                       (''Product ID'', JStr [CHR 0xE2, CHR 0x80, CHR 0x94]),
                       (''Titolo'', JStr (''SOLAR SCREEN'' @ [CHR 0xAE]
                                          @ '' Pellicole Decorative - '' @ model (models ! i))),
                       (''Handle'', JStr [CHR 0xE2, CHR 0x80, CHR 0x94]),
                       (''Status'', JStr ''ERRORE''),
                       (''Collezioni'', JStr ''Homepage, Pellicole per Vetri, Decorative''),
                       (''Errore'', case content r of
                                      Some j \<Rightarrow> j
                                    | None \<Rightarrow> JObj [(''error'', JStr (http_error_msg r))])]"
    unfolding e by (simp add: error_record_def em_dash_def product_title_def joined_defaults)
  from run l e e' s show ?thesis by blast
qed

subsection \<open>Worked examples on the sample store\<close>

lemma store_base: "base store_client = ''https://s/admin/api/v''"
  by (simp add: store_client_def ShopifyClient_def)

lemma store_session: "session store_client = sample_store"
  by (simp add: store_client_def ShopifyClient_def)

lemma call_l211:
  "call def_create_product_l211 self []
     [(''title'', title), (''body_html'', body_html), (''images_payload'', images_payload),
      (''template'', template)]
   = create_product_l211 self title body_html images_payload template"
  by (simp add: call_def def_create_product_l211_def bind_arguments_def)

lemma store_post_ok:
  "title \<noteq> JStr (product_title ''BAD'') \<Longrightarrow>
   sample_store tr (post_product store_client ((''title'', title) # rest))
     = ok_json (JObj [(''product'',
                   JObj [(''id'', JNum (100 + int (length tr))), (''title'', title),
                         (''handle'', JStr ''h''), (''status'', JStr ''active'')])])"
  by (simp add: sample_store_def post_product_def store_base endswith_def posted_title_def
      bind_sum_def)

lemma store_post_bad:
  "sample_store tr (post_product store_client ((''title'', JStr (product_title ''BAD'')) # rest))
     = \<lparr>status_code = 422, reason = ''Unprocessable Entity'',
        url = ''https://s/admin/api/v/products.json'',
        content = Some (JObj [(''errors'', JStr ''rejected'')])\<rparr>"
  by (simp add: sample_store_def post_product_def store_base endswith_def posted_title_def
      bind_sum_def)

lemma store_post_collect:
  "sample_store tr (post_collect store_client pid cid)
     = ok_json (JObj [(''collect'', JObj [(''id'', JNum 1)])])"
  by (simp add: sample_store_def post_collect_def store_base endswith_def)

lemma post_product_step:
  "session_post self (base self @ ''/products.json'') (JObj [(''product'', JObj product_body)]) tr
     = (Inr (session self tr (post_product self product_body)), tr @ [post_product self product_body])"
  by (simp add: session_post_def post_product_def Let_def)

lemma post_collect_step:
  "add_product_to_collection self pid cid tr
     = bind (lift (raise_for_status (session self tr (post_collect self pid cid)))) (\<lambda>_.
       bind (lift (r_json (session self tr (post_collect self pid cid)))) (\<lambda>j.
       lift (dict_get j ''collect'' JNull))) (tr @ [post_collect self pid cid])"
  by (simp add: add_product_to_collection_def session_post_def post_collect_def Let_def bind_def)

lemma ok_json_status: "raise_for_status (ok_json j) = Inr ()" "r_json (ok_json j) = Inr j"
  by (simp_all add: ok_json_def raise_for_status_def r_json_def)

lemma l211_plain:
  "create_product_l211 self title body_html images_payload JNull tr
     = bind (lift (raise_for_status (session self tr (post_product self
               [(''title'', title), (''body_html'', body_html), (''images'', images_payload)]))))
         (\<lambda>_.
       bind (lift (r_json (session self tr (post_product self
               [(''title'', title), (''body_html'', body_html), (''images'', images_payload)]))))
         (\<lambda>j.
       lift (subscript j ''product'')))
       (tr @ [post_product self
               [(''title'', title), (''body_html'', body_html), (''images'', images_payload)]])"
  by (simp add: create_product_l211_def Let_def bind_def [of "ret _"] ret_def
      bind_def [of "session_post _ _ _"] post_product_step)

lemma l211_template:
  "create_product_l211 self title body_html images_payload (sample_template n) tr
     = bind (lift (raise_for_status (session self tr (post_product self
               [(''title'', title), (''body_html'', body_html), (''images'', images_payload),
                (''vendor'', JStr ''V''), (''product_type'', JNull), (''tags'', JNull),
                (''options'', JArr []), (''variants'', JArr [])]))))
         (\<lambda>_.
       bind (lift (r_json (session self tr (post_product self
               [(''title'', title), (''body_html'', body_html), (''images'', images_payload),
                (''vendor'', JStr ''V''), (''product_type'', JNull), (''tags'', JNull),
                (''options'', JArr []), (''variants'', JArr [])]))))
         (\<lambda>j.
       lift (subscript j ''product'')))
       (tr @ [post_product self
               [(''title'', title), (''body_html'', body_html), (''images'', images_payload),
                (''vendor'', JStr ''V''), (''product_type'', JNull), (''tags'', JNull),
                (''options'', JArr []), (''variants'', JArr [])]])"
  by (simp add: create_product_l211_def Let_def bind_def [of "lift _"] lift_def
      bind_def [of "session_post _ _ _"] post_product_step sample_template_def
      bind_sum_def scrub_options_def scrub_variants_def dict_update_def)

lemma store_create_plain:
  "title \<noteq> JStr (product_title ''BAD'') \<Longrightarrow>
   create_product_l211 store_client title body_html images_payload JNull tr
     = (Inr (created (length tr) title),
        tr @ [post_product store_client
               [(''title'', title), (''body_html'', body_html), (''images'', images_payload)]])"
  by (simp add: l211_plain store_session store_post_ok ok_json_status bind_def lift_def
      created_def)

lemma store_create_bad:
  "create_product_l211 store_client (JStr (product_title ''BAD'')) body_html images_payload JNull tr
     = (Inl (HTTPError \<lparr>status_code = 422, reason = ''Unprocessable Entity'',
                         url = ''https://s/admin/api/v/products.json'',
                         content = Some (JObj [(''errors'', JStr ''rejected'')])\<rparr>),
        tr @ [post_product store_client
               [(''title'', JStr (product_title ''BAD'')), (''body_html'', body_html),
                (''images'', images_payload)]])"
  by (simp add: l211_plain store_session store_post_bad bind_def lift_def raise_for_status_def)

lemma store_create_template:
  "title \<noteq> JStr (product_title ''BAD'') \<Longrightarrow>
   create_product_l211 store_client title body_html images_payload (sample_template n) tr
     = (Inr (created (length tr) title),
        tr @ [post_product store_client
               [(''title'', title), (''body_html'', body_html), (''images'', images_payload),
                (''vendor'', JStr ''V''), (''product_type'', JNull), (''tags'', JNull),
                (''options'', JArr []), (''variants'', JArr [])]])"
  by (simp add: l211_template store_session store_post_ok ok_json_status bind_def lift_def
      created_def)

lemma store_add_all:
  "add_all store_client pid cids tr = (Inr (), tr @ map (post_collect store_client pid) cids)"
proof (induction cids arbitrary: tr)
  case Nil
  then show ?case by (simp add: ret_def)
next
  case (Cons cid cids)
  have "add_product_to_collection store_client pid cid tr
          = (Inr (JObj [(''id'', JNum 1)]), tr @ [post_collect store_client pid cid])"
    by (simp add: post_collect_step store_session store_post_collect ok_json_status bind_def
        lift_def)
  then show ?case by (simp add: bind_def Cons.IH)
qed

lemma product_title_inject: "product_title a = product_title b \<longleftrightarrow> a = b"
  by (simp add: product_title_def)

lemma created_row:
  "bind_sum (subscript (created n title) ''id'') f = f (JNum (100 + int n))"
  "success_record name pid (created n (JStr (product_title name))) = Inr
     (JObj [(''Modello'', JStr name), (''Product ID'', pid),
           (''Titolo'', JStr (product_title name)),
           (''Handle'', JStr ''h''),
           (''Status'', JStr ''active''),
           (''Collezioni'', JStr ''Homepage, Pellicole per Vetri, Decorative'')])"
  by (simp_all add: created_def bind_sum_def success_record_def joined_defaults)

lemma store_model_plain:
  assumes "name \<noteq> ''BAD''"
  shows "process_model (call def_create_product_l211) store_client plain_ui tpl sids cids
           (sample_model name) tr
         = (Inr (sample_row name (length tr)),
            tr @ post_product store_client
                   [(''title'', JStr (product_title name)), (''body_html'', JStr DESCRIPTION_HTML),
                    (''images'', JArr [])]
               # map (post_collect store_client (JNum (100 + int (length tr)))) (map snd cids))"
proof -
  have t: "JStr (product_title name) \<noteq> JStr (product_title ''BAD'')"
    using assms by (simp add: product_title_inject)
  show ?thesis
    by (simp add: process_model_def plain_ui_def sample_model_def call_l211
        bind_def [of "ret _"] ret_def bind_def [of "create_product_l211 _ _ _ _ _"]
        store_create_plain [OF t] bind_def [of "lift _"] lift_def created_def
        bind_def [of "add_all _ _ _"] store_add_all success_record_def bind_sum_def
        joined_defaults sample_row_def)
qed

lemma store_model_bad:
  "process_model (call def_create_product_l211) store_client plain_ui tpl sids cids
           (sample_model ''BAD'') tr
         = (Inl (HTTPError rejected),
            tr @ [post_product store_client
                   [(''title'', JStr (product_title ''BAD'')), (''body_html'', JStr DESCRIPTION_HTML),
                    (''images'', JArr [])]])"
  by (simp add: process_model_def plain_ui_def sample_model_def call_l211
        bind_def [of "ret _"] ret_def bind_def [of "create_product_l211 _ _ _ _ _"]
        store_create_bad rejected_def)

lemma store_model_copy:
  assumes "name \<noteq> ''BAD''"
  shows "process_model (call def_create_product_l211) store_client (copy_ui ident)
           (sample_template n) sids cids (sample_model name) tr
         = (Inr (sample_row name (length tr)),
            tr @ post_product store_client
                   [(''title'', JStr (product_title name)), (''body_html'', JStr ''B''),
                    (''images'', JArr []),
                    (''vendor'', JStr ''V''), (''product_type'', JNull), (''tags'', JNull),
                    (''options'', JArr []), (''variants'', JArr [])]
               # map (post_collect store_client (JNum (100 + int (length tr))))
                   (if sids \<noteq> [] then sids else map snd cids))"
proof -
  have t: "JStr (product_title name) \<noteq> JStr (product_title ''BAD'')"
    using assms by (simp add: product_title_inject)
  have b: "truthy (sample_template n)"
    "dict_get (sample_template n) ''body_html'' JNull = Inr (JStr ''B'')"
    by (simp_all add: sample_template_def)
  show ?thesis
    by (simp add: process_model_def copy_ui_def sample_model_def call_l211 b
        bind_def [of "create_product_l211 _ _ _ _ _"]
        store_create_template [OF t] bind_def [of "lift _"] lift_def created_def
        bind_def [of "add_all _ _ _"] store_add_all success_record_def bind_sum_def
        joined_defaults sample_row_def)
qed

lemma sample_model_name: "model (sample_model name) = name"
  by (simp add: sample_model_def)

lemma store_attempts:
  "attempts (call def_create_product_l211) store_client plain_ui JNull []
     [(''Homepage'', JNum 1)]
     [sample_model ''AURORA'', sample_model ''BAD'', sample_model ''BOREALE''] []
   = [Inr (sample_row ''AURORA'' 0), Inl (HTTPError rejected), Inr (sample_row ''BOREALE'' 3)]"
  by (simp add: store_model_plain store_model_bad numeral_3_eq_3)

lemma store_run_with_one_rejection:
  "attempts (call def_create_product_l211) store_client plain_ui JNull []
     [(''Homepage'', JNum 1)]
     [sample_model ''AURORA'', sample_model ''BAD'', sample_model ''BOREALE''] []
   = [Inr (sample_row ''AURORA'' 0), Inl (HTTPError rejected), Inr (sample_row ''BOREALE'' 3)]
   \<and> (\<exists>rows tr'.
         batch_loop (call def_create_product_l211) store_client plain_ui JNull []
           [(''Homepage'', JNum 1)]
           [sample_model ''AURORA'', sample_model ''BAD'', sample_model ''BOREALE''] [] []
         = ((None, rows), tr')
         \<and> length rows = 3
         \<and> rows ! 0 = sample_row ''AURORA'' 0
         \<and> rows ! 1 = error_record ''BAD'' (JObj [(''errors'', JStr ''rejected'')])
         \<and> rows ! 2 = sample_row ''BOREALE'' 3
         \<and> is_success_record ''AURORA'' (rows ! 0)
         \<and> is_success_record ''BOREALE'' (rows ! 2))"
proof -
  let ?ms = "[sample_model ''AURORA'', sample_model ''BAD'', sample_model ''BOREALE'']"
  let ?outs = "[Inr (sample_row ''AURORA'' 0), Inl (HTTPError rejected),
                Inr (sample_row ''BOREALE'' 3)]"
  have others: "\<forall>j < length ?ms. j \<noteq> 1 \<longrightarrow> (\<exists>row. ?outs ! j = Inr row)"
    by (simp add: less_Suc_eq numeral_3_eq_3 all_conj_distrib)
  from loop_survives_one_http_failure
         [OF store_attempts [symmetric] _ _ others, of rejected]
  obtain rows tr' where run:
    "batch_loop (call def_create_product_l211) store_client plain_ui JNull []
       [(''Homepage'', JNum 1)] ?ms [] [] = ((None, rows), tr')"
    and len: "length rows = length ?ms"
    and bad: "rows ! 1 = error_record (model (?ms ! 1))
                (case content rejected of
                   Some j \<Rightarrow> j
                 | None \<Rightarrow> JObj [(''error'', JStr (http_error_msg rejected))])"
    and good: "\<forall>j < length ?ms. j \<noteq> 1 \<longrightarrow>
                 ?outs ! j = Inr (rows ! j) \<and> is_success_record (model (?ms ! j)) (rows ! j)"
    by auto
  from good [rule_format, of 0]
  have "?outs ! 0 = Inr (rows ! 0) \<and> is_success_record (model (?ms ! 0)) (rows ! 0)"
    by simp
  moreover from good [rule_format, of 2]
  have "?outs ! 2 = Inr (rows ! 2) \<and> is_success_record (model (?ms ! 2)) (rows ! 2)"
    by simp
  ultimately show ?thesis
    using run len bad store_attempts by (auto simp: sample_model_name rejected_def)
qed

lemma store_batch_copy:
  "batch_loop (call def_create_product_l211) store_client (copy_ui ''7'') (sample_template 7)
     [JNum 5] [] [sample_model ''AURORA''] [] tr
   = ((None, [sample_row ''AURORA'' (length tr)]),
      tr @ [post_product store_client
                   [(''title'', JStr (product_title ''AURORA'')), (''body_html'', JStr ''B''),
                    (''images'', JArr []),
                    (''vendor'', JStr ''V''), (''product_type'', JNull), (''tags'', JNull),
                    (''options'', JArr []), (''variants'', JArr [])],
            post_collect store_client (JNum (100 + int (length tr))) (JNum 5)])"
  by (simp add: store_model_copy)

lemma store_batch_bad:
  "batch_loop (call def_create_product_l211) store_client plain_ui JNull [] cids
     [sample_model ''BAD''] [] tr
   = ((None, [error_record ''BAD'' (JObj [(''errors'', JStr ''rejected'')])]),
      tr @ [post_product store_client
                   [(''title'', JStr (product_title ''BAD'')), (''body_html'', JStr DESCRIPTION_HTML),
                    (''images'', JArr [])]])"
  by (simp add: store_model_bad error_detail_def r_json_def rejected_def sample_model_name)

lemma store_rows_have_default_summary:
  "batch_loop (call def_create_product_l211) store_client (copy_ui ''7'') (sample_template 7)
     [JNum 5] [] [sample_model ''AURORA''] [] []
   = ((None, [sample_row ''AURORA'' 0]),
      [post_product store_client
                   [(''title'', JStr (product_title ''AURORA'')), (''body_html'', JStr ''B''),
                    (''images'', JArr []),
                    (''vendor'', JStr ''V''), (''product_type'', JNull), (''tags'', JNull),
                    (''options'', JArr []), (''variants'', JArr [])],
       post_collect store_client (JNum 100) (JNum 5)])
   \<and> dict_get (sample_row ''AURORA'' 0) ''Collezioni'' JNull
       = Inr (JStr ''Homepage, Pellicole per Vetri, Decorative'')
   \<and> fst (batch_loop (call def_create_product_l211) store_client plain_ui JNull [] []
            [sample_model ''BAD''] [] [])
       = (None, [error_record ''BAD'' (JObj [(''errors'', JStr ''rejected'')])])
   \<and> dict_get (error_record ''BAD'' (JObj [(''errors'', JStr ''rejected'')])) ''Collezioni'' JNull
       = Inr (JStr ''Homepage, Pellicole per Vetri, Decorative'')"
  using
    appended_rows_have_default_summary [of "call def_create_product_l211" store_client
      "copy_ui ''7''" "sample_template 7" "[JNum 5]" "[]" "[sample_model ''AURORA'']" "[]"]
    appended_rows_have_default_summary [of "call def_create_product_l211" store_client
      plain_ui JNull "[]" "[]" "[sample_model ''BAD'']" "[]"]
    store_batch_copy [of "[]"] store_batch_bad [of "[]" "[]"]
  by simp

subsection \<open>The program as written\<close>

lemma create_product_type_error:
  "create_product self []
     [(''title'', title), (''body_html'', body_html), (''images_payload'', images_payload),
      (''template'', template)] tr = (Inl TypeError, tr)"
  by (simp add: create_product_def create_product_attr call_def def_create_product_l281_def
      bind_arguments_def raise_def)

lemma process_model_aborts:
  "\<exists>e. process_model create_product client ui tpl sids cids m tr = (Inl e, tr)
        \<and> (e = TypeError \<or> e = AttributeError)"
proof (cases "duplication_enabled ui \<and> truthy tpl")
  case False
  then show ?thesis
    by (simp add: process_model_def bind_def ret_def create_product_type_error)
next
  case True
  show ?thesis
  proof (cases tpl)
    case (JObj kvs)
    with True show ?thesis
      by (simp add: process_model_def bind_def lift_def create_product_type_error)
  qed (use True in \<open>simp_all add: process_model_def bind_def lift_def\<close>)
qed

lemma batch_loop_aborts:
  "\<exists>e. batch_loop create_product client ui tpl sids cids (m # ms) results tr
          = ((Some e, results), tr)
        \<and> (e = TypeError \<or> e = AttributeError)"
proof -
  from process_model_aborts [of client ui tpl sids cids m tr] obtain e where
    "process_model create_product client ui tpl sids cids m tr = (Inl e, tr)"
    and "e = TypeError \<or> e = AttributeError"
    by blast
  then show ?thesis by auto
qed

lemma batch_loop_appends_nothing:
  "batch_loop create_product client ui tpl sids cids models results tr
     = ((if models = [] then None else fst (fst (batch_loop create_product client ui tpl sids
                                                   cids models results tr)), results), tr)"
proof (cases models)
  case Nil
  then show ?thesis by simp
next
  case (Cons m ms)
  from batch_loop_aborts [of client ui tpl sids cids m ms results tr] Cons
  show ?thesis by auto
qed






lemma small_numbers: "str_nat 7 = ''7''" "str_nat 8 = ''8''"
  "int_str ''7'' = Inr 7" "int_str ''8'' = Inr 8" "isdigit ''7''" "isdigit ''8''"
  "strip ''7'' = ''7''" "strip ''8'' = ''8''"
  by code_simp+

lemma store_get_product:
  "n = 7 \<or> n = 8 \<Longrightarrow>
   get_product_by_id store_client n tr
     = (Inr (sample_template (int n)), tr @ [get_product store_client n])"
  by (auto simp: get_product_by_id_def bind_def session_get_def Let_def store_session
      store_base sample_store_def small_numbers endswith_def ok_json_def lift_def ret_def
      raise_for_status_def r_json_def get_product_def)

lemma store_list_collections:
  "list_product_collections store_client (JNum n) tr
     = (Inr (if n = 7 then [JNum 5] else []), tr @ [get_collects store_client (JNum n)])"
  by (simp add: list_product_collections_def bind_def session_get_def Let_def store_session
      store_base sample_store_def endswith_def ok_json_def lift_def
      raise_for_status_def r_json_def get_collects_def)

lemma store_template_7:
  "resolve_template store_client (copy_ui ''7'') tr
     = (Inr (Go (sample_template 7, [JNum 5])),
        tr @ [get_product store_client 7, get_collects store_client (JNum 7)])"
  using store_get_product [of 7 tr]
  by (simp add: resolve_template_def copy_ui_def get_product_by_id_or_handle_def Let_def
      small_numbers bind_def lift_def ret_def sample_template_def store_list_collections)

lemma store_template_8:
  "resolve_template store_client (copy_ui ''8'') tr
     = (Inr (Go (sample_template 8, [])),
        tr @ [get_product store_client 8, get_collects store_client (JNum 8)])"
  using store_get_product [of 8 tr]
  by (simp add: resolve_template_def copy_ui_def get_product_by_id_or_handle_def Let_def
      small_numbers bind_def lift_def ret_def sample_template_def store_list_collections)

lemma process_model_type_error:
  assumes "\<not> duplication_enabled ui \<or> (\<exists>kvs. tpl = JObj kvs)"
  shows "process_model create_product client ui tpl sids cids m tr = (Inl TypeError, tr)"
proof (cases "duplication_enabled ui \<and> truthy tpl")
  case False
  then show ?thesis
    by (simp add: process_model_def bind_def ret_def create_product_type_error)
next
  case True
  with assms obtain kvs where "tpl = JObj kvs" by blast
  with True show ?thesis
    by (simp add: process_model_def bind_def lift_def create_product_type_error)
qed

lemma batch_loop_type_error:
  assumes "\<not> duplication_enabled ui \<or> (\<exists>kvs. tpl = JObj kvs)"
  shows "batch_loop create_product client ui tpl sids cids (m # ms) results tr
         = ((Some TypeError, results), tr)"
  by (simp add: process_model_type_error [OF assms])

lemma store_client_eq: "ShopifyClient sample_store ''s'' ''v'' = store_client"
  by (simp add: store_client_def)


lemma store_upload_copy:
  "upload sample_store (copy_ui ''7'') (m # ms)
     = (Crashed TypeError, [get_product store_client 7, get_collects store_client (JNum 7)])"
  "upload sample_store (copy_ui ''8'') (m # ms)
     = (Crashed TypeError, [get_product store_client 8, get_collects store_client (JNum 8)])"
proof -
  have u: "shop_domain (copy_ui ident) = ''s''" "access_token (copy_ui ident) = ''t''"
    "api_version (copy_ui ident) = ''v''" "duplication_enabled (copy_ui ident)"
    "copy_source_collections (copy_ui ident)" for ident
    by (simp_all add: copy_ui_def)
  have c: "resolve_collections store_client (copy_ui ident) tr = (Inr (Go []), tr)" for ident tr
    by (simp add: resolve_collections_def u ret_def)
  have l: "batch_loop create_product store_client (copy_ui ident) (sample_template n) sids cids
             (m # ms) [] tr = ((Some TypeError, []), tr)" for ident n sids cids tr
    by (rule batch_loop_type_error) (simp add: sample_template_def)
  show "upload sample_store (copy_ui ''7'') (m # ms)
     = (Crashed TypeError, [get_product store_client 7, get_collects store_client (JNum 7)])"
    using store_template_7 [of "[]"]
    by (simp add: upload_def batch_run_def u Let_def store_client_eq c l del: batch_loop.simps)
  show "upload sample_store (copy_ui ''8'') (m # ms)
     = (Crashed TypeError, [get_product store_client 8, get_collects store_client (JNum 8)])"
    using store_template_8 [of "[]"]
    by (simp add: upload_def batch_run_def u Let_def store_client_eq c l del: batch_loop.simps)
qed




subsection \<open>Copying the collections of a source that has none\<close>

lemma resolve_template_dict:
  assumes "copy_source_collections ui"
    and "resolve_template client ui tr = (Inr (Go (tpl, ids)), tr1)"
    and "duplication_enabled ui"
  shows "\<exists>kvs. tpl = JObj kvs \<and> kvs \<noteq> []"
proof -
  from assms(2,3) have s: "source_identifier ui \<noteq> []"
    by (auto simp: resolve_template_def ret_def)
  obtain a t where g: "get_product_by_id_or_handle client (source_identifier ui) tr = (a, t)"
    by (cases "get_product_by_id_or_handle client (source_identifier ui) tr")
  with assms s obtain p where a: "a = Inr p" and t: "truthy p"
    by (cases a) (auto simp: resolve_template_def bind_def ret_def split: if_splits)
  from assms s g a t have "dict_get p ''id'' JNull \<noteq> Inl AttributeError \<and> tpl = p"
    by (cases "dict_get p ''id'' JNull")
      (auto simp: resolve_template_def bind_def ret_def lift_def split: if_splits sum.splits
        prod.splits)
  with t show ?thesis by (cases p) auto
qed

lemma l211_requests:
  "\<exists>a sent. create_product_l211 self title body_html images_payload template tr = (a, tr @ sent)
     \<and> list_all (is_product_post self) sent"
proof -
  define pb where "pb =
    (if truthy template
     then lift
       (bind_sum (dict_get template ''vendor'' JNull) (\<lambda>vendor.
        bind_sum (dict_get template ''product_type'' JNull) (\<lambda>product_type.
        bind_sum (dict_get template ''tags'' JNull) (\<lambda>tags.
        bind_sum (bind_sum (dict_get template ''options'' JNull) scrub_options) (\<lambda>opts.
        bind_sum (bind_sum (dict_get template ''variants'' JNull) scrub_variants) (\<lambda>vars.
        Inr (dict_update
               [(''title'', title), (''body_html'', body_html), (''images'', images_payload)]
               [(''vendor'', vendor), (''product_type'', product_type), (''tags'', tags),
                (''options'', JArr opts), (''variants'', JArr vars)])))))))
     else ret [(''title'', title), (''body_html'', body_html), (''images'', images_payload)])"
  define post where "post = (\<lambda>product_body.
      bind (session_post self (base self @ ''/products.json'')
              (JObj [(''product'', JObj product_body)])) (\<lambda>r.
      bind (lift (raise_for_status r)) (\<lambda>_.
      bind (lift (r_json r)) (\<lambda>j.
      lift (subscript j ''product'')))))"
  have cp: "create_product_l211 self title body_html images_payload template = bind pb post"
    by (simp add: create_product_l211_def Let_def pb_def post_def)
  obtain a t where p: "pb tr = (a, t)" by (cases "pb tr")
  then have t: "t = tr" by (auto simp: pb_def lift_def ret_def split: if_splits)
  show ?thesis
  proof (cases a)
    case (Inl e)
    with p t have "create_product_l211 self title body_html images_payload template tr
        = (Inl e, tr @ [])"
      by (simp add: cp bind_def)
    moreover have "list_all (is_product_post self) []" by simp
    ultimately show ?thesis by blast
  next
    case (Inr product_body)
    have "\<exists>a. post product_body tr = (a, tr @ [post_product self product_body])"
      by (simp add: post_def bind_def [of "session_post _ _ _"] post_product_step)
        (simp add: bind_def lift_def split: sum.splits)
    with p t Inr have "\<exists>a. create_product_l211 self title body_html images_payload template tr
        = (a, tr @ [post_product self product_body])"
      by (simp add: cp bind_def [of pb])
    moreover have "list_all (is_product_post self) [post_product self product_body]"
      by (simp add: is_product_post_def post_product_def)
    ultimately show ?thesis by blast
  qed
qed

lemma process_model_no_attachment:
  assumes "dict_get tpl ''body_html'' JNull = Inr descr" and "truthy tpl"
    and "duplication_enabled ui"
  shows "snd (process_model cp client ui tpl [] [] m tr)
         = snd (cp client []
                  [(''title'', JStr (product_title (model m))), (''body_html'', descr),
                   (''images_payload'', JArr (images m)), (''template'', tpl)] tr)"
  using assms
  by (simp add: process_model_def bind_def [of "lift _"] lift_def ret_def)
    (simp add: bind_def lift_def ret_def split: sum.splits prod.splits)

text \<open>
  C10. In duplication mode with the collections of the source copied, when the template was
  resolved with an empty snapshot of collection ids: the default collections are not resolved,
  that step sends no request and yields the empty map; the \<open>try\<close> body of a model then sends
  exactly the requests of its call of \<open>create_product\<close>, whatever function that name is bound
  to, so no product is attached to any collection; with the first definition of
  \<open>create_product\<close> these are posts of products only; and with the definition the class binds
  the loop sends no request at all.
\<close>

theorem empty_snapshot_attaches_nothing:
  assumes "duplication_enabled ui" and "copy_source_collections ui"
    and "resolve_template client ui tr = (Inr (Go (template_product, [])), tr1)"
  shows "resolve_collections client ui tr1 = (Inr (Go []), tr1)
       \<and> (\<exists>descr. dict_get template_product ''body_html'' JNull = Inr descr
            \<and> (\<forall>cp m t.
                  snd (process_model cp client ui template_product [] [] m t)
                  = snd (cp client []
                           [(''title'', JStr (product_title (model m))), (''body_html'', descr),
                            (''images_payload'', JArr (images m)),
                            (''template'', template_product)] t)))
       \<and> (\<forall>m t. \<exists>sent.
             snd (process_model (call def_create_product_l211) client ui template_product [] []
                    m t) = t @ sent
             \<and> list_all (is_product_post client) sent)
       \<and> (\<forall>models. snd (batch_loop create_product client ui template_product [] [] models []
                           tr1) = tr1)"
proof -
  from resolve_template_dict [OF assms(2,3,1)] obtain kvs where
    tpl: "template_product = JObj kvs" and ne: "kvs \<noteq> []"
    by blast
  define descr where "descr = (case map_of kvs ''body_html'' of None \<Rightarrow> JNull | Some v \<Rightarrow> v)"
  have b: "dict_get template_product ''body_html'' JNull = Inr descr"
    by (simp add: tpl descr_def)
  have t: "truthy template_product" by (simp add: tpl ne)
  have 1: "resolve_collections client ui tr1 = (Inr (Go []), tr1)"
    using assms(1,2) by (simp add: resolve_collections_def ret_def)
  have 2: "snd (process_model cp client ui template_product [] [] m t)
                  = snd (cp client []
                           [(''title'', JStr (product_title (model m))), (''body_html'', descr),
                            (''images_payload'', JArr (images m)),
                            (''template'', template_product)] t)" for cp m t
    by (rule process_model_no_attachment [OF b t assms(1)])
  have 3: "\<exists>sent.
             snd (process_model (call def_create_product_l211) client ui template_product [] []
                    m t) = t @ sent
             \<and> list_all (is_product_post client) sent" for m t
    using l211_requests [of client "JStr (product_title (model m))" descr "JArr (images m)"
        template_product t]
    by (auto simp: 2 call_l211)
  have 4: "snd (batch_loop create_product client ui template_product [] [] models [] tr1) = tr1"
    for models
    by (subst batch_loop_appends_nothing) simp
  from 1 b 2 3 4 show ?thesis by blast
qed

theorem empty_snapshot_attaches_nothing_witness:
  "duplication_enabled (copy_ui ''8'') \<and> copy_source_collections (copy_ui ''8'')
   \<and> resolve_template store_client (copy_ui ''8'') []
       = (Inr (Go (sample_template 8, [])),
          [get_product store_client 8, get_collects store_client (JNum 8)])
   \<and> resolve_collections store_client (copy_ui ''8'')
         [get_product store_client 8, get_collects store_client (JNum 8)]
       = (Inr (Go []), [get_product store_client 8, get_collects store_client (JNum 8)])
   \<and> snd (batch_loop create_product store_client (copy_ui ''8'') (sample_template 8) [] []
            [sample_model ''AURORA''] []
            [get_product store_client 8, get_collects store_client (JNum 8)])
       = [get_product store_client 8, get_collects store_client (JNum 8)]
   \<and> upload sample_store (copy_ui ''8'') [sample_model ''AURORA'']
       = (Crashed TypeError, [get_product store_client 8, get_collects store_client (JNum 8)])
   \<and> snd (process_model (call def_create_product_l211) store_client (copy_ui ''8'')
            (sample_template 8) [] [] (sample_model ''AURORA'')
            [get_product store_client 8, get_collects store_client (JNum 8)])
       = [get_product store_client 8, get_collects store_client (JNum 8),
          post_product store_client
            [(''title'', JStr (product_title ''AURORA'')), (''body_html'', JStr ''B''),
             (''images'', JArr []),
             (''vendor'', JStr ''V''), (''product_type'', JNull), (''tags'', JNull),
             (''options'', JArr []), (''variants'', JArr [])]]"
proof -
  let ?ui = "copy_ui ''8''"
  let ?tr1 = "[get_product store_client 8, get_collects store_client (JNum 8)]"
  have u: "duplication_enabled ?ui" "copy_source_collections ?ui"
    by (simp_all add: copy_ui_def)
  have r: "resolve_template store_client ?ui [] = (Inr (Go (sample_template 8, [])), ?tr1)"
    using store_template_8 [of "[]"] by simp
  from empty_snapshot_attaches_nothing [OF u r]
  have c: "resolve_collections store_client ?ui ?tr1 = (Inr (Go []), ?tr1)"
    and l: "snd (batch_loop create_product store_client ?ui (sample_template 8) [] []
                   [sample_model ''AURORA''] [] ?tr1) = ?tr1"
    by blast+
  have p: "snd (process_model (call def_create_product_l211) store_client ?ui
            (sample_template 8) [] [] (sample_model ''AURORA'') ?tr1)
       = ?tr1 @ [post_product store_client
            [(''title'', JStr (product_title ''AURORA'')), (''body_html'', JStr ''B''),
             (''images'', JArr []),
             (''vendor'', JStr ''V''), (''product_type'', JNull), (''tags'', JNull),
             (''options'', JArr []), (''variants'', JArr [])]]"
    by (simp add: store_model_copy)
  from u r c l p store_upload_copy(2) [of "sample_model ''AURORA''" "[]"]
  show ?thesis by simp
qed

end
